theory Spec2Isabelle
  imports Main
begin

section \<open>Go standard-library functions used by the updater\<close>

text \<open>
  The updater is a single Go program (package \<open>main\<close>). Its version comparison
  relies on \<open>strings.Split\<close> and \<open>strconv.Atoi\<close>. Both are modelled here on
  byte strings (\<open>string\<close> is a list of 8-bit characters, as a Go string is a
  sequence of bytes), for a platform whose \<open>int\<close> is 64 bits wide (all entries
  of \<open>platformMap\<close> are 64-bit targets).
\<close>

subsection \<open>\<open>strings.Split\<close> with a one-byte separator\<close>

text \<open>
  \<open>strings.Split(s, ".")\<close> cuts \<open>s\<close> at every separator and returns the
  pieces between them: \<open>n\<close> separators give \<open>n + 1\<close> pieces, so the result is
  never empty (\<open>Split("", ".")\<close> is the one-element slice holding \<open>""\<close>).
  The accumulator \<open>cur\<close> holds the bytes of the piece being read, reversed.
\<close>

fun split_from :: "char \<Rightarrow> string \<Rightarrow> string \<Rightarrow> string list" where
  "split_from sep cur [] = [rev cur]"
| "split_from sep cur (c # cs) =
     (if c = sep then rev cur # split_from sep [] cs
      else split_from sep (c # cur) cs)"

definition strings_Split :: "string \<Rightarrow> char \<Rightarrow> string list" where
  "strings_Split s sep = split_from sep [] s"

subsection \<open>\<open>strconv.Atoi\<close>\<close>

datatype NumError = ErrSyntax | ErrRange

definition is_digit :: "char \<Rightarrow> bool" where
  "is_digit c = (c \<in> set ''0123456789'')"

definition digit_val :: "char \<Rightarrow> int" where
  "digit_val c = of_char c - 48"

definition maxUint64 :: int where
  "maxUint64 = 2 ^ 64 - 1"

text \<open>
  The digit loop of \<open>strconv.ParseUint(s, 10, 64)\<close>: a byte that is not a decimal
  digit is a syntax error with value 0; as soon as the accumulated value would
  leave the 64-bit range the loop returns the largest value with a range error,
  without looking at the bytes that follow. \<open>cutoff\<close> is
  \<open>maxUint64 / 10 + 1\<close>, the smallest \<open>n\<close> for which \<open>n * 10\<close> overflows.
\<close>

fun ParseUint_loop :: "int \<Rightarrow> string \<Rightarrow> int \<times> NumError option" where
  "ParseUint_loop n [] = (n, None)"
| "ParseUint_loop n (c # cs) =
     (if \<not> is_digit c then (0, Some ErrSyntax)
      else if n \<ge> maxUint64 div 10 + 1 then (maxUint64, Some ErrRange)
      else if n * 10 + digit_val c > maxUint64 then (maxUint64, Some ErrRange)
      else ParseUint_loop (n * 10 + digit_val c) cs)"

definition strconv_ParseUint :: "string \<Rightarrow> int \<times> NumError option" where
  "strconv_ParseUint s = (if s = [] then (0, Some ErrSyntax) else ParseUint_loop 0 s)"

text \<open>
  \<open>strconv.ParseInt(s, 10, 0)\<close>: an optional sign, then \<open>ParseUint\<close>. A syntax
  error gives 0. A magnitude outside the signed 64-bit range (also one that
  \<open>ParseUint\<close> reported as out of range) gives the nearest bound together with
  a range error.
\<close>

definition strconv_ParseInt :: "string \<Rightarrow> int \<times> NumError option" where
  "strconv_ParseInt s =
     (if s = [] then (0, Some ErrSyntax)
      else
        let neg = (hd s = CHR ''-'');
            s' = (if hd s = CHR ''+'' \<or> hd s = CHR ''-'' then tl s else s);
            (un, err) = strconv_ParseUint s'
        in if err = Some ErrSyntax then (0, Some ErrSyntax)
           else if \<not> neg \<and> un \<ge> 2 ^ 63 then (2 ^ 63 - 1, Some ErrRange)
           else if neg \<and> un > 2 ^ 63 then (- (2 ^ 63), Some ErrRange)
           else (if neg then - un else un, None))"

text \<open>
  \<open>strconv.Atoi(s)\<close> is \<open>ParseInt(s, 10, 0)\<close> converted to \<open>int\<close>; it returns
  the value together with the error.
\<close>

definition strconv_Atoi :: "string \<Rightarrow> int \<times> NumError option" where
  "strconv_Atoi s = strconv_ParseInt s"

section \<open>Version comparison\<close>

text \<open>
  \<open>compareVersions\<close> splits both strings at the dots and walks the indices
  \<open>0 .. maxLen - 1\<close>. A missing component counts as 0; the error that
  \<open>Atoi\<close> returns is discarded (\<open>v1Val, _ = strconv.Atoi(...)\<close>), so only the
  returned value is used. The first index where the values differ decides.
\<close>

function compareVersions_loop :: "string list \<Rightarrow> string list \<Rightarrow> nat \<Rightarrow> nat \<Rightarrow> int" where
  "compareVersions_loop v1Parts v2Parts maxLen i =
     (if i < maxLen then
        (let v1Val = (if i < length v1Parts then fst (strconv_Atoi (v1Parts ! i)) else 0);
             v2Val = (if i < length v2Parts then fst (strconv_Atoi (v2Parts ! i)) else 0)
         in if v1Val < v2Val then - 1
            else if v1Val > v2Val then 1
            else compareVersions_loop v1Parts v2Parts maxLen (Suc i))
      else 0)"
  by pat_completeness auto
termination
  by (relation "measure (\<lambda>(v1Parts, v2Parts, maxLen, i). maxLen - i)") auto

definition compareVersions :: "string \<Rightarrow> string \<Rightarrow> int" where
  "compareVersions v1 v2 =
     (let v1Parts = strings_Split v1 (CHR ''.'');
          v2Parts = strings_Split v2 (CHR ''.'');
          maxLen = max (length v1Parts) (length v2Parts)
      in compareVersions_loop v1Parts v2Parts maxLen 0)"

subsection \<open>The comparison as the specification words it\<close>

text \<open>
  The specification describes the comparison as: read every dot-separated field
  as an integer, pad the shorter list of fields on the right with zeros, and
  compare the two lists field by field.
\<close>

definition version_fields :: "string \<Rightarrow> int list" where
  "version_fields v = map (\<lambda>p. fst (strconv_Atoi p)) (strings_Split v (CHR ''.''))"

definition pad_zeros :: "nat \<Rightarrow> int list \<Rightarrow> int list" where
  "pad_zeros n xs = xs @ replicate (n - length xs) 0"

fun compare_fields :: "int list \<Rightarrow> int list \<Rightarrow> int" where
  "compare_fields (x # xs) (y # ys) =
     (if x < y then - 1 else if x > y then 1 else compare_fields xs ys)"
| "compare_fields _ _ = 0"

definition spec_compare :: "string \<Rightarrow> string \<Rightarrow> int" where
  "spec_compare v1 v2 =
     (let a = version_fields v1; b = version_fields v2;
          n = max (length a) (length b)
      in compare_fields (pad_zeros n a) (pad_zeros n b))"

section \<open>Paths\<close>

text \<open>
  The archive installer and the orchestrator build their paths with
  \<open>strings.TrimPrefix\<close>, \<open>filepath.Join\<close> and \<open>filepath.IsLocal\<close>. They are
  modelled for a Unix target (separator \<open>/\<close>, no volume names): the updater
  extracts only when the platform token starts with \<open>linux-\<close>.
\<close>

definition strings_HasPrefix :: "string \<Rightarrow> string \<Rightarrow> bool" where
  "strings_HasPrefix s prefix = (take (length prefix) s = prefix)"

definition strings_TrimPrefix :: "string \<Rightarrow> string \<Rightarrow> string" where
  "strings_TrimPrefix s prefix =
     (if strings_HasPrefix s prefix then drop (length prefix) s else s)"

definition filepath_IsAbs :: "string \<Rightarrow> bool" where
  "filepath_IsAbs path = strings_HasPrefix path ''/''"

text \<open>
  \<open>filepath.Clean\<close> works on the elements between separators: empty elements
  and \<open>.\<close> are dropped; \<open>..\<close> removes the element before it, is dropped at the
  root of a rooted path, and is kept at the front of a relative path. \<open>out\<close>
  is the stack of elements kept so far, the last one first.
\<close>

fun clean_elems :: "bool \<Rightarrow> string list \<Rightarrow> string list \<Rightarrow> string list" where
  "clean_elems rooted out [] = rev out"
| "clean_elems rooted out (e # es) =
     (if e = [] \<or> e = ''.'' then clean_elems rooted out es
      else if e = ''..'' then
        (case out of
           [] \<Rightarrow> if rooted then clean_elems rooted [] es
                 else clean_elems rooted [''..''] es
         | o1 # os \<Rightarrow> if o1 = ''..'' then clean_elems rooted (''..'' # out) es
                      else clean_elems rooted os es)
      else clean_elems rooted (e # out) es)"

fun join_slash :: "string list \<Rightarrow> string" where
  "join_slash [] = []"
| "join_slash [e] = e"
| "join_slash (e # es) = e @ CHR ''/'' # join_slash es"

definition render_path :: "bool \<Rightarrow> string list \<Rightarrow> string" where
  "render_path rooted es =
     (if rooted then CHR ''/'' # join_slash es
      else if es = [] then ''.'' else join_slash es)"

definition path_elems :: "string \<Rightarrow> string list" where
  "path_elems path = clean_elems (filepath_IsAbs path) [] (strings_Split path (CHR ''/''))"

definition filepath_Clean :: "string \<Rightarrow> string" where
  "filepath_Clean path = render_path (filepath_IsAbs path) (path_elems path)"

text \<open>
  \<open>filepath.Join(a, b)\<close> ignores leading empty arguments, joins the rest with a
  separator and cleans the result; with nothing but empty arguments it is \<open>""\<close>.
\<close>

definition filepath_Join :: "string \<Rightarrow> string \<Rightarrow> string" where
  "filepath_Join a b =
     (if a \<noteq> [] then filepath_Clean (a @ CHR ''/'' # b)
      else if b \<noteq> [] then filepath_Clean b
      else [])"

text \<open>\<open>filepath.Dir\<close>: everything up to the last separator, cleaned.\<close>

definition filepath_Dir :: "string \<Rightarrow> string" where
  "filepath_Dir path = filepath_Clean (rev (dropWhile (\<lambda>c. c \<noteq> CHR ''/'') (rev path)))"

text \<open>
  \<open>filepath.IsLocal\<close> (Unix): an absolute or empty path is not local; a path
  with a \<open>.\<close> or \<open>..\<close> element is cleaned first; the path is local unless it
  then is \<open>..\<close> or starts with \<open>../\<close>.
\<close>

definition filepath_IsLocal :: "string \<Rightarrow> bool" where
  "filepath_IsLocal path =
     (if filepath_IsAbs path \<or> path = [] then False
      else
        let hasDots = list_ex (\<lambda>part. part = ''.'' \<or> part = ''..'')
                        (strings_Split path (CHR ''/''));
            p = (if hasDots then filepath_Clean path else path)
        in \<not> (p = ''..'' \<or> strings_HasPrefix p ''../''))"

section \<open>File system\<close>

text \<open>
  The state the updater works on is a file tree: a finite table from cleaned
  path names to nodes, where a node is a directory or a regular file with its
  bytes and the mode bits that were passed to the system call creating it
  (the kernel stores them with the bits of the process umask cleared; the
  umask is a parameter of the process that the program never reads or sets).
  Earlier entries of the table shadow later ones. The root \<open>/\<close> and the working
  directory \<open>.\<close> always exist. A path name is resolved lexically (by
  \<open>filepath.Clean\<close>); symbolic links, ownership and failures of the device
  are outside the model, so every operation fails exactly when the shape of
  the tree makes it fail.
\<close>

datatype node = Dir | File (content: string) (perm: int)

type_synonym filesystem = "(string \<times> node) list"

datatype errno = ENOENT | ENOTDIR | EISDIR | EEXIST | ENOTEMPTY | EINVAL | EBUSY

definition fs_lookup :: "filesystem \<Rightarrow> string \<Rightarrow> node option" where
  "fs_lookup fs k = (if k = ''/'' \<or> k = ''.'' then Some Dir else map_of fs k)"

definition fs_put :: "filesystem \<Rightarrow> string \<Rightarrow> node \<Rightarrow> filesystem" where
  "fs_put fs k n = (k, n) # filter (\<lambda>e. fst e \<noteq> k) fs"

definition fs_delete :: "filesystem \<Rightarrow> string \<Rightarrow> filesystem" where
  "fs_delete fs k = filter (\<lambda>e. fst e \<noteq> k) fs"

text \<open>The proper ancestors of a cleaned path, the nearest first.\<close>

definition ancestors :: "string \<Rightarrow> string list" where
  "ancestors k =
     map (\<lambda>n. render_path (filepath_IsAbs k) (take n (path_elems k)))
         (rev [0..<length (path_elems k)])"

definition is_file :: "node option \<Rightarrow> bool" where
  "is_file n = (case n of Some (File c m) \<Rightarrow> True | _ \<Rightarrow> False)"

definition under_file :: "filesystem \<Rightarrow> string \<Rightarrow> bool" where
  "under_file fs k = list_ex (\<lambda>a. is_file (fs_lookup fs a)) (ancestors k)"

text \<open>
  \<open>key_within r q\<close>: the cleaned path \<open>q\<close> is \<open>r\<close> itself or lies below the
  directory \<open>r\<close>.
\<close>

definition key_within :: "string \<Rightarrow> string \<Rightarrow> bool" where
  "key_within r q =
     (q = r \<or>
      (let b = (if r = ''/'' then ''/'' else if r = ''.'' then [] else r @ ''/'');
           rest = drop (length b) q
       in take (length b) q = b \<and> rest \<noteq> []
          \<and> (if r = ''.'' then \<not> filepath_IsAbs q else True)
          \<and> rest \<noteq> ''..'' \<and> \<not> strings_HasPrefix rest ''../''))"

text \<open>
  \<open>os.Stat\<close>: \<open>ENOENT\<close> for the empty name and for a missing node,
  \<open>ENOTDIR\<close> when an ancestor is a regular file. \<open>os.IsNotExist(err)\<close> holds
  exactly for \<open>ENOENT\<close>.
\<close>

definition os_Stat :: "filesystem \<Rightarrow> string \<Rightarrow> errno + node" where
  "os_Stat fs name =
     (if name = [] then Inl ENOENT
      else if under_file fs (filepath_Clean name) then Inl ENOTDIR
      else case fs_lookup fs (filepath_Clean name) of
             None \<Rightarrow> Inl ENOENT
           | Some n \<Rightarrow> Inr n)"

text \<open>A new node needs its parent directory.\<close>

definition new_node :: "filesystem \<Rightarrow> string \<Rightarrow> node \<Rightarrow> errno + filesystem" where
  "new_node fs k n =
     (case os_Stat fs (filepath_Dir k) of
        Inr Dir \<Rightarrow> Inr (fs_put fs k n)
      | Inr (File c m) \<Rightarrow> Inl ENOTDIR
      | Inl e \<Rightarrow> Inl e)"

definition os_Mkdir :: "filesystem \<Rightarrow> string \<Rightarrow> errno + filesystem" where
  "os_Mkdir fs name =
     (case os_Stat fs name of
        Inr n \<Rightarrow> Inl EEXIST
      | Inl ENOENT \<Rightarrow> (if name = [] then Inl ENOENT else new_node fs (filepath_Clean name) Dir)
      | Inl e \<Rightarrow> Inl e)"

text \<open>
  \<open>os.MkdirAll\<close>: if the path is a directory there is nothing to do, if it is
  a file the call fails; otherwise the parent is made first (recursively), then
  the directory itself. The list is the path followed by its ancestors.
\<close>

fun mkdir_all :: "filesystem \<Rightarrow> string list \<Rightarrow> errno + filesystem" where
  "mkdir_all fs [] = Inr fs"
| "mkdir_all fs (k # ks) =
     (case os_Stat fs k of
        Inr Dir \<Rightarrow> Inr fs
      | Inr (File c m) \<Rightarrow> Inl ENOTDIR
      | Inl e \<Rightarrow> (case mkdir_all fs ks of
                    Inl e' \<Rightarrow> Inl e'
                  | Inr fs' \<Rightarrow> os_Mkdir fs' k))"

definition os_MkdirAll :: "filesystem \<Rightarrow> string \<Rightarrow> errno + filesystem" where
  "os_MkdirAll fs name =
     (if name = [] then Inl ENOENT
      else mkdir_all fs (filepath_Clean name # ancestors (filepath_Clean name)))"

text \<open>
  The mode argument of \<open>os.OpenFile\<close> is an \<open>os.FileMode\<close>. Its
  function \<open>syscallMode\<close> makes the mode of the system call from it: the nine
  permission bits, and the set-uid, set-gid and sticky bits (octal 4000, 2000,
  1000) where the \<open>FileMode\<close> has \<open>ModeSetuid\<close> (bit 23), \<open>ModeSetgid\<close>
  (bit 22), \<open>ModeSticky\<close> (bit 20). The conversion of an integer to
  \<open>os.FileMode\<close> keeps its low 32 bits, so these bits are read off the
  integer.
\<close>

definition syscallMode :: "int \<Rightarrow> int" where
  "syscallMode mode =
     mode mod 512
     + (if (mode div 8388608) mod 2 = 1 then 2048 else 0)
     + (if (mode div 4194304) mod 2 = 1 then 1024 else 0)
     + (if (mode div 1048576) mod 2 = 1 then 512 else 0)"

text \<open>
  \<open>os.OpenFile\<close> for writing. Without \<open>O_TRUNC\<close> an existing file keeps its
  bytes; the mode argument is used only when the file is created. The handle
  remembers the node and whether writes append.
\<close>

record open_flags =
  O_CREATE :: bool
  O_TRUNC :: bool
  O_APPEND :: bool

record file_handle =
  h_key :: string
  h_append :: bool

definition os_OpenFile ::
  "filesystem \<Rightarrow> string \<Rightarrow> open_flags \<Rightarrow> int \<Rightarrow> errno + (filesystem \<times> file_handle)" where
  "os_OpenFile fs name flag mode =
     (let k = filepath_Clean name; h = \<lparr>h_key = k, h_append = O_APPEND flag\<rparr>
      in case os_Stat fs name of
           Inr Dir \<Rightarrow> Inl EISDIR
         | Inr (File c m) \<Rightarrow>
             Inr (if O_TRUNC flag then fs_put fs k (File [] m) else fs, h)
         | Inl ENOENT \<Rightarrow>
             (if name = [] \<or> \<not> O_CREATE flag then Inl ENOENT
              else case new_node fs k (File [] (syscallMode mode)) of
                     Inl e \<Rightarrow> Inl e
                   | Inr fs' \<Rightarrow> Inr (fs', h))
         | Inl e \<Rightarrow> Inl e)"

text \<open>\<open>os.Create(name)\<close> is \<open>OpenFile(name, O_RDWR|O_CREATE|O_TRUNC, 0666)\<close>.\<close>

definition os_Create :: "filesystem \<Rightarrow> string \<Rightarrow> errno + (filesystem \<times> file_handle)" where
  "os_Create fs name =
     os_OpenFile fs name \<lparr>O_CREATE = True, O_TRUNC = True, O_APPEND = False\<rparr> 438"

text \<open>
  Writing a byte stream through a fresh handle (\<open>io.Copy\<close> into the file): in
  append mode the bytes go to the end, otherwise they replace the bytes from
  offset 0 and what the file held beyond them stays.
\<close>

definition file_write :: "filesystem \<Rightarrow> file_handle \<Rightarrow> string \<Rightarrow> filesystem" where
  "file_write fs h data =
     (case fs_lookup fs (h_key h) of
        Some (File c m) \<Rightarrow>
          fs_put fs (h_key h)
            (File (if h_append h then c @ data else data @ drop (length data) c) m)
      | _ \<Rightarrow> fs)"

definition os_ReadFile :: "filesystem \<Rightarrow> string \<Rightarrow> errno + string" where
  "os_ReadFile fs name =
     (case os_Stat fs name of
        Inr (File c m) \<Rightarrow> Inr c
      | Inr Dir \<Rightarrow> Inl EISDIR
      | Inl e \<Rightarrow> Inl e)"

definition has_children :: "filesystem \<Rightarrow> string \<Rightarrow> bool" where
  "has_children fs k = list_ex (\<lambda>e. fst e \<noteq> k \<and> key_within k (fst e)) fs"

text \<open>\<open>os.Remove\<close> removes a file or an empty directory.\<close>

definition os_Remove :: "filesystem \<Rightarrow> string \<Rightarrow> errno option \<times> filesystem" where
  "os_Remove fs name =
     (case os_Stat fs name of
        Inl e \<Rightarrow> (Some e, fs)
      | Inr (File c m) \<Rightarrow> (None, fs_delete fs (filepath_Clean name))
      | Inr Dir \<Rightarrow>
          (if has_children fs (filepath_Clean name) then (Some ENOTEMPTY, fs)
           else if filepath_Clean name = ''/'' \<or> filepath_Clean name = ''.''
           then (Some EBUSY, fs)
           else (None, fs_delete fs (filepath_Clean name))))"

text \<open>
  \<open>os.RemoveAll\<close> removes the path and everything below it. It succeeds on the
  empty path and on a missing path, refuses a path whose last element is \<open>.\<close>,
  and cannot remove the root or the working directory itself.
\<close>

definition endsWithDot :: "string \<Rightarrow> bool" where
  "endsWithDot path = (path = ''.'' \<or> (length path \<ge> 2 \<and> take 2 (rev path) = ''./''))"

definition os_RemoveAll :: "filesystem \<Rightarrow> string \<Rightarrow> errno option \<times> filesystem" where
  "os_RemoveAll fs path =
     (if path = [] then (None, fs)
      else if endsWithDot path then (Some EINVAL, fs)
      else if under_file fs (filepath_Clean path) then (Some ENOTDIR, fs)
      else
        let k = filepath_Clean path;
            fs' = filter (\<lambda>e. \<not> key_within k (fst e)) fs
        in if k = ''/'' \<or> k = ''.'' then (Some EBUSY, fs') else (None, fs'))"

text \<open>
  \<open>os.Rename\<close> of a regular file, which replaces a regular file at the new
  path. When the new path is a directory, \<open>os.Rename\<close> reports the error of
  the old path if it has one and \<open>EEXIST\<close> otherwise, without calling the
  kernel. The updater renames only the partial download it has just written,
  so renaming a directory is not modelled (it is reported as \<open>EINVAL\<close>).
\<close>

definition os_Rename :: "filesystem \<Rightarrow> string \<Rightarrow> string \<Rightarrow> errno + filesystem" where
  "os_Rename fs oldpath newpath =
     (case os_Stat fs oldpath of
        Inl e \<Rightarrow> Inl e
      | Inr Dir \<Rightarrow> Inl EINVAL
      | Inr (File c m) \<Rightarrow>
          (case os_Stat fs newpath of
             Inr Dir \<Rightarrow> Inl EEXIST
           | Inr (File c' m') \<Rightarrow>
               Inr (fs_put (fs_delete fs (filepath_Clean oldpath))
                      (filepath_Clean newpath) (File c m))
           | Inl ENOENT \<Rightarrow>
               (if newpath = [] then Inl ENOENT
                else new_node (fs_delete fs (filepath_Clean oldpath))
                       (filepath_Clean newpath) (File c m))
           | Inl e \<Rightarrow> Inl e))"

section \<open>Archive installer\<close>

text \<open>
  What \<open>tar.Reader\<close> delivers: a sequence of entries, each with its header
  fields and body. \<open>BodyErr\<close> marks an entry whose body cannot be read to its
  end (\<open>Body\<close> then holds the bytes read before the failure), and
  \<open>Truncated\<close> a stream that ends with an error instead of the end-of-archive
  mark. Type flags other than regular file and directory are one case, as the
  installer treats them alike.
\<close>

datatype typeflag = TypeReg | TypeDir | TypeOther

record tar_entry =
  Name :: string
  Typeflag :: typeflag
  Mode :: int
  Body :: string
  BodyErr :: bool

record tar_stream =
  entries :: "tar_entry list"
  Truncated :: bool

datatype extract_error =
  ErrOpen errno | ErrGzip | ErrTar | ErrNonLocal string | ErrFS errno

definition open_rdwr_create :: open_flags where
  "open_rdwr_create = \<lparr>O_CREATE = True, O_TRUNC = False, O_APPEND = False\<rparr>"

text \<open>
  The loop of \<open>extractArchive\<close>, one iteration per entry. The result is the
  error returned (if any) and the file tree as the call leaves it. An entry
  whose body was not read completely makes the next \<open>tr.Next()\<close> fail.
\<close>

fun extract_entries ::
  "string \<Rightarrow> tar_entry list \<Rightarrow> bool \<Rightarrow> filesystem \<Rightarrow> extract_error option \<times> filesystem" where
  "extract_entries destPath [] truncated fs = (if truncated then Some ErrTar else None, fs)"
| "extract_entries destPath (header # rest) truncated fs =
     (if \<not> filepath_IsLocal (Name header) then (Some (ErrNonLocal (Name header)), fs)
      else
        let name = strings_TrimPrefix (Name header) ''Windsurf/'' in
        if name = [] then
          (if BodyErr header then (Some ErrTar, fs)
           else extract_entries destPath rest truncated fs)
        else
          let target = filepath_Join destPath name in
          case Typeflag header of
            TypeDir \<Rightarrow>
              (case os_MkdirAll fs target of
                 Inl e \<Rightarrow> (Some (ErrFS e), fs)
               | Inr fs' \<Rightarrow>
                   if BodyErr header then (Some ErrTar, fs')
                   else extract_entries destPath rest truncated fs')
          | TypeReg \<Rightarrow>
              (case os_OpenFile fs target open_rdwr_create (Mode header) of
                 Inl e \<Rightarrow> (Some (ErrFS e), fs)
               | Inr (fs', f) \<Rightarrow>
                   if BodyErr header then (Some ErrTar, file_write fs' f (Body header))
                   else extract_entries destPath rest truncated
                          (file_write fs' f (Body header)))
          | TypeOther \<Rightarrow>
              (if BodyErr header then (Some ErrTar, fs)
               else extract_entries destPath rest truncated fs))"

text \<open>
  \<open>extractArchive\<close>: open the archive, set up the gzip and tar readers, run
  the loop. Decoding the gzip and tar formats is the parameter \<open>gunzip_tar\<close>
  (\<open>None\<close> when the file is not a gzip stream).
\<close>

definition extractArchive ::
  "(string \<Rightarrow> tar_stream option) \<Rightarrow> string \<Rightarrow> string \<Rightarrow> filesystem
   \<Rightarrow> extract_error option \<times> filesystem" where
  "extractArchive gunzip_tar archivePath destPath fs =
     (case os_Stat fs archivePath of
        Inl e \<Rightarrow> (Some (ErrOpen e), fs)
      | Inr Dir \<Rightarrow> (Some ErrGzip, fs)
      | Inr (File c m) \<Rightarrow>
          (case gunzip_tar c of
             None \<Rightarrow> (Some ErrGzip, fs)
           | Some tr \<Rightarrow> extract_entries destPath (entries tr) (Truncated tr) fs))"

subsection \<open>The earlier variant of the installer\<close>

text \<open>
  The repository holds a second variant of the program (\<open>main.go\<close>), whose
  \<open>extractArchive\<close> first removes \<open>destPath/Windsurf\<close>, joins the entry name
  with the destination as it is (no locality check, no stripping), and for a
  regular file creates the parent directories of the target before opening it.
\<close>

fun extract_entries_v0 ::
  "string \<Rightarrow> tar_entry list \<Rightarrow> bool \<Rightarrow> filesystem \<Rightarrow> extract_error option \<times> filesystem" where
  "extract_entries_v0 destPath [] truncated fs = (if truncated then Some ErrTar else None, fs)"
| "extract_entries_v0 destPath (header # rest) truncated fs =
     (let target = filepath_Join destPath (Name header) in
      case Typeflag header of
        TypeDir \<Rightarrow>
          (case os_MkdirAll fs target of
             Inl e \<Rightarrow> (Some (ErrFS e), fs)
           | Inr fs' \<Rightarrow>
               if BodyErr header then (Some ErrTar, fs')
               else extract_entries_v0 destPath rest truncated fs')
      | TypeReg \<Rightarrow>
          (case os_MkdirAll fs (filepath_Dir target) of
             Inl e \<Rightarrow> (Some (ErrFS e), fs)
           | Inr fs1 \<Rightarrow>
               (case os_OpenFile fs1 target open_rdwr_create (Mode header) of
                  Inl e \<Rightarrow> (Some (ErrFS e), fs1)
                | Inr (fs', f) \<Rightarrow>
                    if BodyErr header then (Some ErrTar, file_write fs' f (Body header))
                    else extract_entries_v0 destPath rest truncated
                           (file_write fs' f (Body header))))
      | TypeOther \<Rightarrow>
          (if BodyErr header then (Some ErrTar, fs)
           else extract_entries_v0 destPath rest truncated fs))"

definition extractArchive_v0 ::
  "(string \<Rightarrow> tar_stream option) \<Rightarrow> string \<Rightarrow> string \<Rightarrow> filesystem
   \<Rightarrow> extract_error option \<times> filesystem" where
  "extractArchive_v0 gunzip_tar archivePath destPath fs =
     (case os_Stat fs archivePath of
        Inl e \<Rightarrow> (Some (ErrOpen e), fs)
      | Inr opened \<Rightarrow>
          (case (if os_Stat fs (destPath @ ''/Windsurf'') \<noteq> Inl ENOENT
                 then os_RemoveAll fs (destPath @ ''/Windsurf'') else (None, fs)) of
             (Some e, fs1) \<Rightarrow> (Some (ErrFS e), fs1)
           | (None, fs1) \<Rightarrow>
               (case opened of
                  Dir \<Rightarrow> (Some ErrGzip, fs1)
                | File c m \<Rightarrow>
                    (case gunzip_tar c of
                       None \<Rightarrow> (Some ErrGzip, fs1)
                     | Some tr \<Rightarrow>
                         extract_entries_v0 destPath (entries tr) (Truncated tr) fs1))))"

section \<open>Resumable downloader\<close>

text \<open>
  A request is its URL and, when present, the offset \<open>n\<close> of the header
  \<open>Range: bytes=n-\<close>. A response is its status code and body;
  \<open>RespBodyErr\<close> marks a body whose transfer breaks off (\<open>RespBody\<close> then
  holds the bytes received before the failure).

  Everything the program reads from outside the file tree is a field of the
  environment: the network (\<open>http_Do\<close> answers the last request of the list,
  given the requests sent before it; \<open>None\<close> is a transport error), whether a
  URL parses, the SHA-256 digest in hexadecimal, the JSON decoder of the
  release descriptor, the gzip and tar decoder, the home directory, the
  platform of the running program, and the answer read from the terminal.
  The state is the file tree together with the log of the requests sent.
\<close>

record request =
  req_URL :: string
  req_Range :: "int option"

record response =
  StatusCode :: int
  RespBody :: string
  RespBodyErr :: bool

text \<open>Of the fields of \<open>ReleaseInfo\<close> the program reads these three.\<close>

record ReleaseInfo =
  URL :: string
  SHA256Hash :: string
  WindsurfVersion :: string

record env =
  http_Do :: "request list \<Rightarrow> response option"
  url_valid :: "string \<Rightarrow> bool"
  sha256_hex :: "string \<Rightarrow> string"
  json_decode :: "string \<Rightarrow> ReleaseInfo option"
  gunzip_tar :: "string \<Rightarrow> tar_stream option"
  UserHomeDir :: "string option"
  goPlatform :: string
  stdin_response :: string

record world =
  fs :: filesystem
  sent :: "request list"

datatype download_error =
  ErrNewRequest | ErrDo | ErrStatus int | ErrOpenPartial errno | ErrCopy | ErrRename errno

text \<open>
  The size \<open>os.Stat\<close> reports: the length of a file; for a directory the
  value depends on the file system, 4096 is what common Linux file systems
  report.
\<close>

definition node_size :: "node \<Rightarrow> int" where
  "node_size n = (case n of File c m \<Rightarrow> int (length c) | Dir \<Rightarrow> 4096)"

definition open_append :: open_flags where
  "open_append = \<lparr>O_CREATE = False, O_TRUNC = False, O_APPEND = True\<rparr>"

text \<open>
  The second half of \<open>downloadFile\<close>, from the check of the final status code
  on: open the partial file (appending when \<open>startOffset\<close> is positive,
  created afresh otherwise), copy the body into it, rename it to the final
  path.
\<close>

definition store_body ::
  "string \<Rightarrow> int \<Rightarrow> response \<Rightarrow> world \<Rightarrow> download_error option \<times> world" where
  "store_body filepath startOffset resp w =
     (let partialPath = filepath @ ''.partial'' in
      if StatusCode resp \<noteq> 200 \<and> StatusCode resp \<noteq> 206
      then (Some (ErrStatus (StatusCode resp)), w)
      else
        case (if startOffset > 0 then os_OpenFile (fs w) partialPath open_append 420
              else os_Create (fs w) partialPath) of
          Inl e \<Rightarrow> (Some (ErrOpenPartial e), w)
        | Inr (fs1, out) \<Rightarrow>
            let fs2 = file_write fs1 out (RespBody resp) in
            if RespBodyErr resp then (Some ErrCopy, w\<lparr>fs := fs2\<rparr>)
            else case os_Rename fs2 partialPath filepath of
                   Inl e \<Rightarrow> (Some (ErrRename e), w\<lparr>fs := fs2\<rparr>)
                 | Inr fs3 \<Rightarrow> (None, w\<lparr>fs := fs3\<rparr>))"

text \<open>
  \<open>downloadFile\<close>: the size of an existing partial file is the start offset;
  a positive offset is sent as a range request. When a range request is
  answered with a status other than 206, the offset is reset, the partial file
  removed (the result of \<open>os.Remove\<close> is not looked at) and the request sent
  again without the header.
\<close>

definition downloadFile ::
  "env \<Rightarrow> string \<Rightarrow> string \<Rightarrow> world \<Rightarrow> download_error option \<times> world" where
  "downloadFile e url filepath w =
     (let partialPath = filepath @ ''.partial'';
          startOffset = (case os_Stat (fs w) partialPath of
                           Inr n \<Rightarrow> node_size n
                         | Inl err \<Rightarrow> 0)
      in
      if \<not> url_valid e url then (Some ErrNewRequest, w)
      else
        let req = \<lparr>req_URL = url,
                   req_Range = (if startOffset > 0 then Some startOffset else None)\<rparr>;
            w1 = w\<lparr>sent := sent w @ [req]\<rparr>
        in
        case http_Do e (sent w1) of
          None \<Rightarrow> (Some ErrDo, w1)
        | Some resp \<Rightarrow>
            if startOffset > 0 \<and> StatusCode resp \<noteq> 206 then
              (let w2 = w1\<lparr>fs := snd (os_Remove (fs w1) partialPath),
                           sent := sent w1 @ [req\<lparr>req_Range := None\<rparr>]\<rparr>
               in case http_Do e (sent w2) of
                    None \<Rightarrow> (Some ErrDo, w2)
                  | Some resp2 \<Rightarrow> store_body filepath 0 resp2 w2)
            else store_body filepath startOffset resp w1)"

section \<open>Update orchestrator\<close>

datatype release_error = ErrGet | ErrAPIStatus int | ErrDecode

definition UpdateApiUrl :: "string \<Rightarrow> string" where
  "UpdateApiUrl platform =
     ''https://windsurf-stable.codeium.com/api/update/'' @ platform @ ''/stable/latest''"

definition VersionMarker :: string where
  "VersionMarker = ''.windsurf-release''"

definition platformMap :: "(string \<times> string) list" where
  "platformMap =
     [(''darwin-arm64'', ''darwin-arm64-dmg''),
      (''darwin-amd64'', ''darwin-x64-dmg''),
      (''linux-amd64'', ''linux-x64''),
      (''windows-amd64'', ''win32-x64'')]"

definition getLatestRelease ::
  "env \<Rightarrow> string \<Rightarrow> world \<Rightarrow> (release_error + ReleaseInfo) \<times> world" where
  "getLatestRelease e platform w =
     (if \<not> url_valid e (UpdateApiUrl platform) then (Inl ErrGet, w)
      else
        let w1 = w\<lparr>sent := sent w @ [\<lparr>req_URL = UpdateApiUrl platform, req_Range = None\<rparr>]\<rparr>
        in case http_Do e (sent w1) of
             None \<Rightarrow> (Inl ErrGet, w1)
           | Some resp \<Rightarrow>
               if StatusCode resp \<noteq> 200 then (Inl (ErrAPIStatus (StatusCode resp)), w1)
               else if RespBodyErr resp then (Inl ErrDecode, w1)
               else case json_decode e (RespBody resp) of
                      None \<Rightarrow> (Inl ErrDecode, w1)
                    | Some release \<Rightarrow> (Inr release, w1))"

text \<open>
  \<open>calculateSHA256\<close> reads the file in chunks of 1 MiB into the hash; the
  digest is that of the whole content. Opening a directory succeeds, reading
  it fails.
\<close>

definition calculateSHA256 :: "env \<Rightarrow> filesystem \<Rightarrow> string \<Rightarrow> errno + string" where
  "calculateSHA256 e fsys path =
     (case os_Stat fsys path of
        Inl err \<Rightarrow> Inl err
      | Inr Dir \<Rightarrow> Inl EISDIR
      | Inr (File c m) \<Rightarrow> Inr (sha256_hex e c))"

text \<open>The flags after parsing, with the platform token already resolved.\<close>

record flags =
  downloadPath :: string
  installPath :: string
  platform :: string
  forceUpdate :: bool
  yes :: bool

text \<open>
  How a run ends: with exit status 0 because the installed version is current,
  with exit status 1 and the reason, after a completed update (with the error
  of creating the version marker, which is only a warning), or with the hint
  to install by hand on a platform that is not Linux.
\<close>

datatype failure =
    NoHomeDir
  | UnsupportedPlatform
  | CheckFailed release_error
  | NoDownloadDir
  | DownloadFailed download_error
  | HashFailed errno
  | HashMismatch string string
  | Aborted
  | RemoveFailed errno
  | ExtractFailed extract_error

datatype outcome =
    AlreadyUpToDate string
  | Exit1 failure
  | Updated "errno option"
  | ManualInstall

text \<open>
  \<open>strings.TrimSpace\<close> removes the leading and the trailing white space of a
  string, where white space is what \<open>unicode.IsSpace\<close> accepts. A string is
  its bytes, read as UTF-8; the white-space characters and their encodings are
  the six ASCII characters \<open>\t\<close>, \<open>\n\<close>, \<open>\v\<close>, \<open>\f\<close>, \<open>\r\<close> and
  space (one byte each), U+0085 and U+00A0 (\<open>C2 85\<close>, \<open>C2 A0\<close>), U+1680
  (\<open>E1 9A 80\<close>), U+2000 to U+200A (\<open>E2 80 80\<close> to \<open>E2 80 8A\<close>), U+2028,
  U+2029 and U+202F (\<open>E2 80 A8\<close>, \<open>E2 80 A9\<close>, \<open>E2 80 AF\<close>), U+205F
  (\<open>E2 81 9F\<close>) and U+3000 (\<open>E3 80 80\<close>).

  At the front the function decodes one character after the other and stops at
  the first that is not white space; the string starts with a white-space
  character exactly when it starts with one of these encodings (bytes that are
  no valid encoding decode to U+FFFD, which is not white space). At the end it
  decodes backwards, with \<open>utf8.DecodeLastRuneInString\<close>, which finds a
  white-space character exactly when the string ends with one of the
  encodings. The fast path of \<open>TrimSpace\<close> for strings whose ends are ASCII
  gives the same result.
\<close>

definition space_encodings :: "string list" where
  "space_encodings =
     map (\<lambda>b. [b]) [CHR 0x09, CHR 0x0A, CHR 0x0B, CHR 0x0C, CHR 0x0D, CHR 0x20]
     @ [[CHR 0xC2, CHR 0x85], [CHR 0xC2, CHR 0xA0], [CHR 0xE1, CHR 0x9A, CHR 0x80]]
     @ map (\<lambda>b. [CHR 0xE2, CHR 0x80, b])
         [CHR 0x80, CHR 0x81, CHR 0x82, CHR 0x83, CHR 0x84, CHR 0x85, CHR 0x86, CHR 0x87,
          CHR 0x88, CHR 0x89, CHR 0x8A, CHR 0xA8, CHR 0xA9, CHR 0xAF]
     @ [[CHR 0xE2, CHR 0x81, CHR 0x9F], [CHR 0xE3, CHR 0x80, CHR 0x80]]"

text \<open>
  \<open>trim_prefixes ps s\<close> removes from the front of \<open>s\<close>, as long as there
  is one, an occurrence of one of the strings \<open>ps\<close>.
\<close>

fun trim_prefixes :: "string list \<Rightarrow> string \<Rightarrow> string" where
  "trim_prefixes ps [] = []"
| "trim_prefixes ps (c # cs) =
     (case find (\<lambda>p. strings_HasPrefix (c # cs) p) ps of
        None \<Rightarrow> c # cs
      | Some p \<Rightarrow> trim_prefixes ps (drop (length p - 1) cs))"

definition strings_TrimLeftSpace :: "string \<Rightarrow> string" where
  "strings_TrimLeftSpace s = trim_prefixes space_encodings s"

definition strings_TrimRightSpace :: "string \<Rightarrow> string" where
  "strings_TrimRightSpace s = rev (trim_prefixes (map rev space_encodings) (rev s))"

definition strings_TrimSpace :: "string \<Rightarrow> string" where
  "strings_TrimSpace s = strings_TrimRightSpace (strings_TrimLeftSpace s)"

definition archive_path :: "flags \<Rightarrow> ReleaseInfo \<Rightarrow> string" where
  "archive_path fl release =
     filepath_Join (downloadPath fl) (''windsurf-'' @ WindsurfVersion release @ ''.tar.gz'')"

text \<open>
  \<open>main\<close> is a straight sequence of stages, each of which either ends the
  run or hands over to the next one. They are defined last stage first.

  Extraction and the version marker (on Linux only). When the marker cannot be
  created the program prints a warning and still reports success.
\<close>

definition install_stage :: "env \<Rightarrow> flags \<Rightarrow> ReleaseInfo \<Rightarrow> world \<Rightarrow> outcome \<times> world" where
  "install_stage e fl release w =
     (if strings_HasPrefix (platform fl) ''linux-'' then
        (case extractArchive (gunzip_tar e) (archive_path fl release) (installPath fl) (fs w) of
           (Some err, fs1) \<Rightarrow> (Exit1 (ExtractFailed err), w\<lparr>fs := fs1\<rparr>)
         | (None, fs1) \<Rightarrow>
             (case os_Create fs1 (filepath_Join (installPath fl) VersionMarker) of
                Inl err \<Rightarrow> (Updated (Some err), w\<lparr>fs := fs1\<rparr>)
              | Inr (fs2, f) \<Rightarrow>
                  (Updated None, w\<lparr>fs := file_write fs2 f (WindsurfVersion release)\<rparr>)))
      else (ManualInstall, w))"

text \<open>
  Removal of an existing installation directory: without \<open>--yes\<close> the answer
  must start with \<open>Y\<close> or \<open>y\<close>. The directory is then created again; the
  result of that \<open>os.MkdirAll\<close> is not looked at.
\<close>

definition affirmative :: "string \<Rightarrow> bool" where
  "affirmative resp =
     (\<not> (length resp < 1 \<or> (hd resp \<noteq> CHR ''Y'' \<and> hd resp \<noteq> CHR ''y'')))"

definition recreate_install_dir :: "flags \<Rightarrow> filesystem \<Rightarrow> filesystem" where
  "recreate_install_dir fl fs1 =
     (case os_MkdirAll fs1 (installPath fl) of Inl err \<Rightarrow> fs1 | Inr fs2 \<Rightarrow> fs2)"

definition replace_stage :: "env \<Rightarrow> flags \<Rightarrow> ReleaseInfo \<Rightarrow> world \<Rightarrow> outcome \<times> world" where
  "replace_stage e fl release w =
     (if os_Stat (fs w) (installPath fl) \<noteq> Inl ENOENT then
        (if \<not> yes fl \<and> \<not> affirmative (stdin_response e) then (Exit1 Aborted, w)
         else case os_RemoveAll (fs w) (installPath fl) of
                (Some err, fs1) \<Rightarrow> (Exit1 (RemoveFailed err), w\<lparr>fs := fs1\<rparr>)
              | (None, fs1) \<Rightarrow>
                  install_stage e fl release (w\<lparr>fs := recreate_install_dir fl fs1\<rparr>))
      else install_stage e fl release (w\<lparr>fs := recreate_install_dir fl (fs w)\<rparr>))"

text \<open>The integrity check of the file at the archive path.\<close>

definition verify_stage :: "env \<Rightarrow> flags \<Rightarrow> ReleaseInfo \<Rightarrow> world \<Rightarrow> outcome \<times> world" where
  "verify_stage e fl release w =
     (case calculateSHA256 e (fs w) (archive_path fl release) of
        Inl err \<Rightarrow> (Exit1 (HashFailed err), w)
      | Inr archiveHash \<Rightarrow>
          if archiveHash \<noteq> SHA256Hash release
          then (Exit1 (HashMismatch (SHA256Hash release) archiveHash), w)
          else replace_stage e fl release w)"

text \<open>The download, skipped when something exists at the archive path.\<close>

definition download_stage :: "env \<Rightarrow> flags \<Rightarrow> ReleaseInfo \<Rightarrow> world \<Rightarrow> outcome \<times> world" where
  "download_stage e fl release w =
     (if os_Stat (fs w) (archive_path fl release) = Inl ENOENT then
        (case downloadFile e (URL release) (archive_path fl release) w of
           (Some err, w1) \<Rightarrow> (Exit1 (DownloadFailed err), w1)
         | (None, w1) \<Rightarrow> verify_stage e fl release w1)
      else verify_stage e fl release w)"

definition download_dir_stage :: "env \<Rightarrow> flags \<Rightarrow> ReleaseInfo \<Rightarrow> world \<Rightarrow> outcome \<times> world" where
  "download_dir_stage e fl release w =
     (if os_Stat (fs w) (downloadPath fl) = Inl ENOENT then (Exit1 NoDownloadDir, w)
      else download_stage e fl release w)"

text \<open>The comparison with the installed version.\<close>

definition version_stage :: "env \<Rightarrow> flags \<Rightarrow> ReleaseInfo \<Rightarrow> world \<Rightarrow> outcome \<times> world" where
  "version_stage e fl release w =
     (if os_Stat (fs w) (installPath fl) \<noteq> Inl ENOENT \<and> \<not> forceUpdate fl then
        (case os_ReadFile (fs w) (filepath_Join (installPath fl) VersionMarker) of
           Inl err \<Rightarrow> download_dir_stage e fl release w
         | Inr vsn \<Rightarrow>
             if compareVersions (strings_TrimSpace vsn) (WindsurfVersion release) \<ge> 0
             then (AlreadyUpToDate (strings_TrimSpace vsn), w)
             else download_dir_stage e fl release w)
      else download_dir_stage e fl release w)"

text \<open>
  The command line: the two paths when given (their defaults are
  \<open>~/Downloads\<close> and \<open>~/apps/windsurf\<close> with \<open>~\<close> replaced by the home
  directory), the platform (empty when not given), and the two switches.
\<close>

record cmdline =
  opt_download_path :: "string option"
  opt_install_path :: "string option"
  opt_platform :: string
  opt_force_update :: bool
  opt_yes :: bool

definition resolve_flags :: "string \<Rightarrow> string \<Rightarrow> cmdline \<Rightarrow> flags" where
  "resolve_flags homeDir updatePlatform args =
     \<lparr>downloadPath = (case opt_download_path args of
                        None \<Rightarrow> homeDir @ ''/Downloads'' | Some p \<Rightarrow> p),
      installPath = (case opt_install_path args of
                       None \<Rightarrow> homeDir @ ''/apps/windsurf'' | Some p \<Rightarrow> p),
      platform = updatePlatform,
      forceUpdate = opt_force_update args,
      yes = opt_yes args\<rparr>"

definition main :: "env \<Rightarrow> cmdline \<Rightarrow> world \<Rightarrow> outcome \<times> world" where
  "main e args w =
     (case UserHomeDir e of
        None \<Rightarrow> (Exit1 NoHomeDir, w)
      | Some homeDir \<Rightarrow>
          (case (if opt_platform args \<noteq> [] then map_of platformMap (opt_platform args)
                 else map_of platformMap (goPlatform e)) of
             None \<Rightarrow> (Exit1 UnsupportedPlatform, w)
           | Some updatePlatform \<Rightarrow>
               (case getLatestRelease e updatePlatform w of
                  (Inl err, w1) \<Rightarrow> (Exit1 (CheckFailed err), w1)
                | (Inr release, w1) \<Rightarrow>
                    version_stage e (resolve_flags homeDir updatePlatform args) release w1)))"

section \<open>Notions used in the statements and proofs\<close>

text \<open>
  A version component that \<open>compareVersions\<close> reads as 0 for lack of
  integer syntax, or that is \<open>0\<close> itself.
\<close>

definition unparsed_or_zero :: "string \<Rightarrow> bool" where
  "unparsed_or_zero c = (snd (strconv_Atoi c) = Some ErrSyntax \<or> c = ''0'')"


text \<open>
  The weight of a list of path elements is the length of the elements joined
  by separators, plus one. An element is proper when it is neither empty nor
  \<open>.\<close>.
\<close>

definition weight :: "string list \<Rightarrow> nat" where
  "weight es = sum_list (map length es) + length es"

definition proper_elem :: "string \<Rightarrow> bool" where
  "proper_elem e = (e \<noteq> [] \<and> e \<noteq> ''.'')"


text \<open>
  The two requests of a resumed download that falls back, and the state in
  which the second one is sent: the partial file is gone and both requests are
  in the log.
\<close>

definition range_request :: "string \<Rightarrow> int \<Rightarrow> request" where
  "range_request url n = \<lparr>req_URL = url, req_Range = Some n\<rparr>"

definition plain_request :: "string \<Rightarrow> request" where
  "plain_request url = \<lparr>req_URL = url, req_Range = None\<rparr>"

definition after_fallback :: "string \<Rightarrow> string \<Rightarrow> int \<Rightarrow> world \<Rightarrow> world" where
  "after_fallback url filepath n w =
     w\<lparr>fs := fs_delete (fs w) (filepath_Clean (filepath @ ''.partial'')),
       sent := sent w @ [range_request url n, plain_request url]\<rparr>"


text \<open>
  An outcome is past the verification when it is reached only through
  \<open>replace_stage\<close>: a completed update, the hint to install by hand, a
  declined confirmation, a failed removal or a failed extraction.
\<close>

definition past_verification :: "outcome \<Rightarrow> bool" where
  "past_verification out =
     (case out of
        Updated warn \<Rightarrow> True
      | ManualInstall \<Rightarrow> True
      | Exit1 Aborted \<Rightarrow> True
      | Exit1 (RemoveFailed err) \<Rightarrow> True
      | Exit1 (ExtractFailed err) \<Rightarrow> True
      | _ \<Rightarrow> False)"


section \<open>Example inputs\<close>

subsection \<open>Archives\<close>

text \<open>
  A regular-file entry, a directory entry, a decoder that yields a given list
  of entries, and a file tree holding a downloaded archive and an empty
  destination directory \<open>/install\<close>.
\<close>

definition reg_entry :: "string \<Rightarrow> int \<Rightarrow> string \<Rightarrow> tar_entry" where
  "reg_entry name mode body =
     \<lparr>Name = name, Typeflag = TypeReg, Mode = mode, Body = body, BodyErr = False\<rparr>"

definition dir_entry :: "string \<Rightarrow> tar_entry" where
  "dir_entry name = \<lparr>Name = name, Typeflag = TypeDir, Mode = 493, Body = [], BodyErr = False\<rparr>"

definition archive_of :: "tar_entry list \<Rightarrow> string \<Rightarrow> tar_stream option" where
  "archive_of es c = Some \<lparr>entries = es, Truncated = False\<rparr>"

definition install_fs :: filesystem where
  "install_fs = [(''/dl/windsurf.tar.gz'', File ''gz'' 420), (''/dl'', Dir), (''/install'', Dir)]"

definition wrapped_archive :: "tar_entry list" where
  "wrapped_archive =
     [dir_entry ''Windsurf/'', dir_entry ''Windsurf/bin/'',
      reg_entry ''Windsurf/bin/app'' 493 ''ELF'']"


subsection \<open>Downloads\<close>

text \<open>
  A server that ignores the range header and always answers 200 with the whole
  resource, and a download directory holding a partial file of four bytes.
\<close>

definition plain_server :: env where
  "plain_server =
     \<lparr>http_Do = (\<lambda>reqs. Some \<lparr>StatusCode = 200, RespBody = ''FULLBODY'', RespBodyErr = False\<rparr>),
      url_valid = (\<lambda>u. True),
      sha256_hex = (\<lambda>c. c),
      json_decode = (\<lambda>b. None),
      gunzip_tar = (\<lambda>c. None),
      UserHomeDir = Some ''/home/u'',
      goPlatform = ''linux-amd64'',
      stdin_response = []\<rparr>"

definition partial_world :: world where
  "partial_world =
     \<lparr>fs = [(''/dl/w.tar.gz.partial'', File ''FULL'' 438), (''/dl'', Dir)], sent = []\<rparr>"


subsection \<open>Runs of the updater\<close>

text \<open>
  A release 1.5.0 with digest \<open>d1\<close>; the flags of a run without options
  for the home directory \<open>/home/u\<close>; a file tree with an installation whose
  marker holds a given version, and the same tree with the archive of
  the release already in the download directory; a server that answers the
  metadata request and serves a given body as the archive, together with the
  answer typed at the confirmation prompt. The digest function of the example
  maps the genuine archive \<open>TARBALL\<close> to \<open>d1\<close> and everything else to
  \<open>d0\<close>.
\<close>

definition release_150 :: ReleaseInfo where
  "release_150 = \<lparr>URL = ''https://host/w.tar.gz'', SHA256Hash = ''d1'', WindsurfVersion = ''1.5.0''\<rparr>"

definition home_flags :: flags where
  "home_flags = \<lparr>downloadPath = ''/home/u/Downloads'', installPath = ''/home/u/apps/windsurf'',
                  platform = ''linux-x64'', forceUpdate = False, yes = False\<rparr>"

definition installed_world :: "string \<Rightarrow> world" where
  "installed_world marker =
     \<lparr>fs = [(''/home/u/apps/windsurf/.windsurf-release'', File marker 438),
             (''/home/u/apps/windsurf'', Dir), (''/home/u/apps'', Dir),
             (''/home/u/Downloads'', Dir), (''/home/u'', Dir), (''/home'', Dir)],
      sent = []\<rparr>"

definition update_server :: "string \<Rightarrow> string \<Rightarrow> env" where
  "update_server body answer =
     \<lparr>http_Do = (\<lambda>reqs. if req_URL (last reqs) = UpdateApiUrl ''linux-x64''
                   then Some \<lparr>StatusCode = 200, RespBody = ''{...}'', RespBodyErr = False\<rparr>
                   else Some \<lparr>StatusCode = 200, RespBody = body, RespBodyErr = False\<rparr>),
      url_valid = (\<lambda>u. True),
      sha256_hex = (\<lambda>c. if c = ''TARBALL'' then ''d1'' else ''d0''),
      json_decode = (\<lambda>b. Some release_150),
      gunzip_tar = archive_of wrapped_archive,
      UserHomeDir = Some ''/home/u'',
      goPlatform = ''linux-amd64'',
      stdin_response = answer\<rparr>"

definition no_options :: cmdline where
  "no_options = \<lparr>opt_download_path = None, opt_install_path = None, opt_platform = [],
                  opt_force_update = False, opt_yes = False\<rparr>"

text \<open>
  A run with \<open>--install-path ""\<close>: the installation root is the empty path,
  and the marker under it is the file \<open>.windsurf-release\<close> of the working
  directory, here holding the version 9.9.9.
\<close>

definition empty_install_path :: cmdline where
  "empty_install_path = no_options\<lparr>opt_install_path := Some []\<rparr>"

definition cwd_installed_world :: world where
  "cwd_installed_world =
     \<lparr>fs = [(''.windsurf-release'', File ''9.9.9'' 438),
             (''/home/u/Downloads'', Dir), (''/home/u'', Dir), (''/home'', Dir)],
      sent = []\<rparr>"

definition downloaded_world :: world where
  "downloaded_world =
     \<lparr>fs = (''/home/u/Downloads/windsurf-1.5.0.tar.gz'', File ''TARBALL'' 438)
            # fs (installed_world ''1.4.0''),
      sent = []\<rparr>"


section \<open>Properties\<close>

subsection \<open>Properties of the version comparison\<close>

lemma nth_pad_zeros:
  "i < n \<Longrightarrow> length xs \<le> n \<Longrightarrow>
   pad_zeros n xs ! i = (if i < length xs then xs ! i else 0)"
  by (simp add: pad_zeros_def nth_append)

lemma length_pad_zeros: "length xs \<le> n \<Longrightarrow> length (pad_zeros n xs) = n"
  by (simp add: pad_zeros_def)

text \<open>
  Loop invariant: from index \<open>i\<close> on, the loop compares what is left of the two
  padded lists of field values.
\<close>

lemma compareVersions_loop_fields:
  "length p1 \<le> n \<Longrightarrow> length p2 \<le> n \<Longrightarrow>
   compareVersions_loop p1 p2 n i =
     compare_fields (drop i (pad_zeros n (map (\<lambda>p. fst (strconv_Atoi p)) p1)))
                    (drop i (pad_zeros n (map (\<lambda>p. fst (strconv_Atoi p)) p2)))"
proof (induction p1 p2 n i rule: compareVersions_loop.induct)
  case (1 p1 p2 n i)
  let ?a = "pad_zeros n (map (\<lambda>p. fst (strconv_Atoi p)) p1)"
  let ?b = "pad_zeros n (map (\<lambda>p. fst (strconv_Atoi p)) p2)"
  show ?case
  proof (cases "i < n")
    case False
    then have "drop i ?a = []" using 1(2) by (simp add: length_pad_zeros)
    then show ?thesis using False by (subst compareVersions_loop.simps) simp
  next
    case True
    have la: "length ?a = n" and lb: "length ?b = n"
      using 1(2,3) by (simp_all add: length_pad_zeros)
    have da: "drop i ?a = ?a ! i # drop (Suc i) ?a"
      using True la by (simp add: Cons_nth_drop_Suc)
    have db: "drop i ?b = ?b ! i # drop (Suc i) ?b"
      using True lb by (simp add: Cons_nth_drop_Suc)
    have na: "?a ! i = (if i < length p1 then fst (strconv_Atoi (p1 ! i)) else 0)"
      using True 1(2) by (simp add: nth_pad_zeros)
    have nb: "?b ! i = (if i < length p2 then fst (strconv_Atoi (p2 ! i)) else 0)"
      using True 1(3) by (simp add: nth_pad_zeros)
    show ?thesis
      apply (subst compareVersions_loop.simps)
      apply (subst da, subst db)
      apply (simp only: na nb)
      using True 1 by (auto simp: Let_def)
  qed
qed

lemma compareVersions_eq_spec_compare: "compareVersions v1 v2 = spec_compare v1 v2"
proof -
  let ?p1 = "strings_Split v1 (CHR ''.'')"
  let ?p2 = "strings_Split v2 (CHR ''.'')"
  let ?n = "max (length ?p1) (length ?p2)"
  have "compareVersions_loop ?p1 ?p2 ?n 0 =
     compare_fields (drop 0 (pad_zeros ?n (map (\<lambda>p. fst (strconv_Atoi p)) ?p1)))
                    (drop 0 (pad_zeros ?n (map (\<lambda>p. fst (strconv_Atoi p)) ?p2)))"
    by (rule compareVersions_loop_fields) simp_all
  then show ?thesis
    by (simp only: compareVersions_def spec_compare_def version_fields_def Let_def
        drop_0 length_map)
qed

text \<open>
  Claim C4. \<open>compareVersions\<close> compares dot-separated version strings field by
  field as integers, the shorter version padded on the right with zero fields:
  it agrees with the comparison as the specification words it on all inputs.
  In particular \<open>compare("1.2.3", "1.2.10") < 0\<close>, \<open>compare("1.2", "1.2.0") = 0\<close>
  and \<open>compare("2.0.0", "1.9.9") > 0\<close>.
\<close>

theorem compareVersions_componentwise:
  "compareVersions v1 v2 = spec_compare v1 v2
   \<and> compareVersions ''1.2.3'' ''1.2.10'' < 0
   \<and> compareVersions ''1.2'' ''1.2.0'' = 0
   \<and> compareVersions ''2.0.0'' ''1.9.9'' > 0"
proof -
  have a: "compareVersions ''1.2.3'' ''1.2.10'' = - 1" by code_simp
  have b: "compareVersions ''1.2'' ''1.2.0'' = 0" by code_simp
  have c: "compareVersions ''2.0.0'' ''1.9.9'' = 1" by code_simp
  show ?thesis using a b c by (simp add: compareVersions_eq_spec_compare)
qed

text \<open>
  A field on which \<open>Atoi\<close> reports a syntax error has the value 0; a field of
  decimal digits that does not fit 64 bits is a range error and has the value of
  the nearest bound instead.
\<close>

lemma Atoi_syntax_error_zero:
  "snd (strconv_Atoi c) = Some ErrSyntax \<Longrightarrow> fst (strconv_Atoi c) = 0"
  by (auto simp: strconv_Atoi_def strconv_ParseInt_def Let_def split: prod.splits if_splits)

lemma compare_fields_zeros:
  "list_all (\<lambda>x. x = 0) xs \<Longrightarrow> list_all (\<lambda>y. y = 0) ys \<Longrightarrow> compare_fields xs ys = 0"
  by (induction xs ys rule: compare_fields.induct) auto

lemma list_all_pad_zeros:
  "list_all (\<lambda>x. x = 0) xs \<Longrightarrow> list_all (\<lambda>x. x = 0) (pad_zeros n xs)"
  by (auto simp: pad_zeros_def list_all_iff)

lemma unparsed_or_zero_value: "unparsed_or_zero c \<Longrightarrow> fst (strconv_Atoi c) = 0"
proof -
  have z: "fst (strconv_Atoi ''0'') = 0" by code_simp
  assume "unparsed_or_zero c"
  then show ?thesis
    using z Atoi_syntax_error_zero by (auto simp: unparsed_or_zero_def)
qed

lemma version_fields_zeros:
  "list_all unparsed_or_zero (strings_Split v (CHR ''.'')) \<Longrightarrow>
   list_all (\<lambda>x. x = 0) (version_fields v)"
  by (simp add: version_fields_def list_all_iff unparsed_or_zero_value)

text \<open>
  Claim C10, as stated, fails: "any component that fails integer parsing is
  treated as 0" does not hold for a component of digits outside the 64-bit
  range. \<open>Atoi\<close> fails on \<open>9223372036854775808\<close> with a range error and
  returns the largest 64-bit value, so the version compares greater than
  \<open>0\<close>.
\<close>

theorem compareVersions_range_error_not_zero:
  "snd (strconv_Atoi ''9223372036854775808'') = Some ErrRange
   \<and> fst (strconv_Atoi ''9223372036854775808'') = 9223372036854775807
   \<and> compareVersions ''9223372036854775808'' ''0'' = 1"
proof -
  have a: "strconv_Atoi ''9223372036854775808'' = (9223372036854775807, Some ErrRange)"
    by code_simp
  have b: "compareVersions ''9223372036854775808'' ''0'' = 1"
    by code_simp
  show ?thesis using a b by simp
qed

text \<open>
  Claim C10, amended. A component on which \<open>Atoi\<close> reports a syntax error is
  silently treated as 0. For every pair of version strings all of whose
  components are such components or \<open>"0"\<close>, \<open>compareVersions\<close> returns 0; for
  example \<open>compareVersions("1.beta", "1.0") = 0\<close> and
  \<open>compareVersions("abc", "0") = 0\<close>. No input makes the comparison fail.
\<close>

theorem compareVersions_syntax_error_as_zero:
  "(snd (strconv_Atoi c) = Some ErrSyntax \<longrightarrow> fst (strconv_Atoi c) = 0)
   \<and> (list_all unparsed_or_zero (strings_Split v1 (CHR ''.''))
        \<and> list_all unparsed_or_zero (strings_Split v2 (CHR ''.''))
      \<longrightarrow> compareVersions v1 v2 = 0)
   \<and> compareVersions ''1.beta'' ''1.0'' = 0
   \<and> compareVersions ''abc'' ''0'' = 0"
proof -
  have a: "compareVersions ''1.beta'' ''1.0'' = 0" by code_simp
  have b: "compareVersions ''abc'' ''0'' = 0" by code_simp
  have g: "compareVersions v1 v2 = 0"
    if "list_all unparsed_or_zero (strings_Split v1 (CHR ''.''))"
      and "list_all unparsed_or_zero (strings_Split v2 (CHR ''.''))"
    using that
    by (simp add: compareVersions_eq_spec_compare spec_compare_def Let_def
        compare_fields_zeros list_all_pad_zeros version_fields_zeros)
  show ?thesis using a b g Atoi_syntax_error_zero by blast
qed

theorem compareVersions_syntax_error_as_zero_witness:
  "snd (strconv_Atoi ''beta'') = Some ErrSyntax \<and> fst (strconv_Atoi ''beta'') = 0
   \<and> list_all unparsed_or_zero (strings_Split ''x.beta'' (CHR ''.''))
   \<and> list_all unparsed_or_zero (strings_Split ''0.0.rc1'' (CHR ''.''))
   \<and> compareVersions ''x.beta'' ''0.0.rc1'' = 0"
proof -
  have e: "snd (strconv_Atoi ''beta'') = Some ErrSyntax" by code_simp
  have h1: "list_all unparsed_or_zero (strings_Split ''x.beta'' (CHR ''.''))" by code_simp
  have h2: "list_all unparsed_or_zero (strings_Split ''0.0.rc1'' (CHR ''.''))" by code_simp
  show ?thesis
    using e h1 h2
      compareVersions_syntax_error_as_zero [of "''beta''" "''x.beta''" "''0.0.rc1''"]
    by blast
qed

subsection \<open>Properties of the file-system operations\<close>

lemma map_of_filter_key:
  "map_of (filter (\<lambda>e. fst e \<noteq> k) fsys) q = (if q = k then None else map_of fsys q)"
  by (induction fsys) auto

lemma fs_lookup_put:
  "fs_lookup (fs_put fsys k n) q =
     (if q = ''/'' \<or> q = ''.'' then Some Dir else if q = k then Some n else fs_lookup fsys q)"
  by (simp add: fs_lookup_def fs_put_def map_of_filter_key)



lemma syscallMode_perm: "0 \<le> mode \<Longrightarrow> mode < 512 \<Longrightarrow> syscallMode mode = mode"
  by (simp add: syscallMode_def div_pos_pos_trivial)

lemma syscallMode_0666 [simp]: "syscallMode 438 = 438"
  by (simp add: syscallMode_perm)






lemma lookup_not_top:
  "fs_lookup fsys k \<noteq> Some Dir \<Longrightarrow> k \<noteq> ''/'' \<and> k \<noteq> ''.''"
  by (auto simp: fs_lookup_def)




subsection \<open>Properties of the installer\<close>

text \<open>
  An entry whose name \<open>filepath.IsLocal\<close> refuses ends the extraction with an
  error before anything is joined or written for it; absolute names are among
  them.
\<close>

lemma extract_entries_rejects:
  "\<not> filepath_IsLocal (Name h) \<Longrightarrow>
   extract_entries d (h # rest) t fsys = (Some (ErrNonLocal (Name h)), fsys)"
  by simp

lemma IsLocal_not_abs: "filepath_IsAbs n \<Longrightarrow> \<not> filepath_IsLocal n"
  by (simp add: filepath_IsLocal_def)






text \<open>
  Claim C1: an entry whose name is absolute or would resolve outside the
  destination root is rejected, the extraction fails, and no file is written
  for it. The code breaks this for a name that leaves the destination only
  after the wrapper directory is stripped: the locality test runs on the name
  as it stands in the archive, \<open>Windsurf/../x\<close> passes it, the stripped name
  is \<open>../x\<close>, and the file is written to \<open>/x\<close>, outside \<open>/install\<close>, with
  no error.
\<close>

theorem extractArchive_wrapper_dotdot_escapes:
  "filepath_IsLocal ''Windsurf/../x''
   \<and> extractArchive (archive_of [reg_entry ''Windsurf/../x'' 420 ''evil''])
        ''/dl/windsurf.tar.gz'' ''/install'' install_fs
      = (None, (''/x'', File ''evil'' 420) # install_fs)
   \<and> \<not> key_within ''/install'' ''/x''"
proof -
  have a: "filepath_IsLocal ''Windsurf/../x''" by code_simp
  have b: "extractArchive (archive_of [reg_entry ''Windsurf/../x'' 420 ''evil''])
        ''/dl/windsurf.tar.gz'' ''/install'' install_fs
      = (None, (''/x'', File ''evil'' 420) # install_fs)" by code_simp
  have c: "\<not> key_within ''/install'' ''/x''" by code_simp
  show ?thesis using a b c by simp
qed




text \<open>
  Claim C6: a regular-file entry creates the missing parent directories of its
  target, then creates or overwrites the file with exactly the bytes of the
  entry. The code does neither in full. A regular-file entry whose parent
  directory is missing makes \<open>OpenFile\<close> fail, the extraction stops with the
  error and nothing is created (the earlier variant of the installer creates
  the parents and succeeds on the same archive). The file is opened without
  truncation, so a second, shorter entry of the same name leaves the tail of
  the first in the file.
\<close>

theorem extractArchive_no_parent_dirs:
  "extractArchive (archive_of [reg_entry ''Windsurf/bin/app'' 493 ''ELF''])
        ''/dl/windsurf.tar.gz'' ''/install'' install_fs
      = (Some (ErrFS ENOENT), install_fs)
   \<and> fst (extractArchive_v0 (archive_of [reg_entry ''Windsurf/bin/app'' 493 ''ELF''])
        ''/dl/windsurf.tar.gz'' ''/install'' install_fs) = None
   \<and> os_ReadFile (snd (extractArchive (archive_of
          [reg_entry ''Windsurf/a'' 420 ''0123456789'', reg_entry ''Windsurf/a'' 420 ''abc''])
        ''/dl/windsurf.tar.gz'' ''/install'' install_fs)) ''/install/a'' = Inr ''abc3456789''"
proof -
  have a: "extractArchive (archive_of [reg_entry ''Windsurf/bin/app'' 493 ''ELF''])
        ''/dl/windsurf.tar.gz'' ''/install'' install_fs
      = (Some (ErrFS ENOENT), install_fs)" by code_simp
  have b: "fst (extractArchive_v0 (archive_of [reg_entry ''Windsurf/bin/app'' 493 ''ELF''])
        ''/dl/windsurf.tar.gz'' ''/install'' install_fs) = None" by code_simp
  have c: "os_ReadFile (snd (extractArchive (archive_of
          [reg_entry ''Windsurf/a'' 420 ''0123456789'', reg_entry ''Windsurf/a'' 420 ''abc''])
        ''/dl/windsurf.tar.gz'' ''/install'' install_fs)) ''/install/a'' = Inr ''abc3456789''"
    by code_simp
  show ?thesis using a b c by simp
qed

subsection \<open>A cleaned path is none of its own ancestors\<close>

text \<open>
  Cleaning never adds weight, every proper ancestor of a path is strictly
  shorter than the path or is the working directory, and so a path never is
  its own ancestor.
\<close>

lemma weight_simps [simp]:
  "weight [] = 0" "weight (e # es) = Suc (length e) + weight es"
  "weight (xs @ ys) = weight xs + weight ys" "weight (rev xs) = weight xs"
  by (simp_all add: weight_def rev_map [symmetric])

lemma length_join_slash: "es \<noteq> [] \<Longrightarrow> Suc (length (join_slash es)) = weight es"
  by (induction es rule: join_slash.induct) auto

lemma weight_split_from: "weight (split_from sep cur s) = Suc (length cur + length s)"
  by (induction s arbitrary: cur) auto

lemma weight_Split: "weight (strings_Split s sep) = Suc (length s)"
  by (simp add: strings_Split_def weight_split_from)

lemma weight_clean_elems: "weight (clean_elems r out es) \<le> weight out + weight es"
  by (induction r out es rule: clean_elems.induct) (auto split: list.splits)

lemma proper_dotdot: "proper_elem ''..''"
  by (simp add: proper_elem_def)

lemma clean_elems_proper:
  "list_all proper_elem out \<Longrightarrow> list_all proper_elem (clean_elems r out es)"
proof (induction r out es rule: clean_elems.induct)
  case (1 rooted out)
  then show ?case by simp
next
  case (2 rooted out e es)
  show ?case
  proof (cases "e = [] \<or> e = ''.''")
    case True
    then show ?thesis using 2 by simp
  next
    case False
    then have pe: "proper_elem e" by (simp add: proper_elem_def)
    show ?thesis
    proof (cases "e = ''..''")
      case True
      show ?thesis
      proof (cases out)
        case Nil
        then show ?thesis using 2 False True proper_dotdot by (cases rooted) simp_all
      next
        case (Cons o1 os)
        then show ?thesis using 2 False True proper_dotdot by (cases "o1 = ''..''") simp_all
      qed
    next
      case F2: False
      then show ?thesis using 2 False pe by simp
    qed
  qed
qed

lemma path_elems_proper: "list_all proper_elem (path_elems k)"
  unfolding path_elems_def by (rule clean_elems_proper) simp

lemma weight_path_elems_rel: "\<not> filepath_IsAbs k \<Longrightarrow> weight (path_elems k) \<le> Suc (length k)"
  using weight_clean_elems [of False "[]" "strings_Split k (CHR ''/'')"]
  by (simp add: path_elems_def weight_Split)

lemma weight_path_elems_abs: "filepath_IsAbs k \<Longrightarrow> weight (path_elems k) \<le> length k"
proof -
  assume a: "filepath_IsAbs k"
  then obtain t where k: "k = CHR ''/'' # t"
    by (cases k) (auto simp: filepath_IsAbs_def strings_HasPrefix_def)
  have "strings_Split k (CHR ''/'') = [] # strings_Split t (CHR ''/'')"
    by (simp add: k strings_Split_def)
  then have "path_elems k = clean_elems True [] (strings_Split t (CHR ''/''))"
    using a by (simp add: path_elems_def)
  then show ?thesis
    using weight_clean_elems [of True "[]" "strings_Split t (CHR ''/'')"]
    by (simp add: weight_Split k)
qed

lemma weight_take:
  "n < length es \<Longrightarrow> list_all proper_elem es \<Longrightarrow> weight (take n es) + 2 \<le> weight es"
proof (induction es arbitrary: n)
  case Nil
  then show ?case by simp
next
  case (Cons e es)
  show ?case
  proof (cases n)
    case 0
    then show ?thesis using Cons.prems by (cases e) (simp_all add: proper_elem_def)
  next
    case (Suc m)
    then show ?thesis using Cons.IH [of m] Cons.prems by simp
  qed
qed

lemma join_slash_not_dot:
  assumes "list_all proper_elem es" and "es \<noteq> []"
  shows "join_slash es \<noteq> ''.''"
proof (cases es)
  case Nil
  then show ?thesis using assms by simp
next
  case (Cons e es')
  show ?thesis
  proof (cases es')
    case Nil
    then show ?thesis using Cons assms by (simp add: proper_elem_def)
  next
    case (Cons e' es'')
    have "Suc (length (join_slash es)) = weight es" using assms length_join_slash by blast
    moreover have "e \<noteq> []" using assms(1) \<open>es = e # es'\<close> by (simp add: proper_elem_def)
    ultimately have "length (join_slash es) \<ge> 2"
      using \<open>es = e # es'\<close> Cons by (cases e) auto
    then show ?thesis by auto
  qed
qed

lemma ancestor_neq:
  assumes "a \<in> set (ancestors k)"
  shows "a \<noteq> k"
proof -
  let ?es = "path_elems k"
  let ?r = "filepath_IsAbs k"
  obtain n where n: "n < length ?es" and a: "a = render_path ?r (take n ?es)"
    using assms by (auto simp: ancestors_def)
  have pr: "list_all proper_elem ?es" by (rule path_elems_proper)
  then have wt: "weight (take n ?es) + 2 \<le> weight ?es" using weight_take n by blast
  have ne: "?es \<noteq> []" using n by auto
  show ?thesis
  proof (cases ?r)
    case True
    have "length a \<le> weight (take n ?es) + 1"
      using a True length_join_slash [of "take n ?es"]
      by (cases "take n ?es = []") (auto simp: render_path_def)
    then have "length a < length k" using wt weight_path_elems_abs True by fastforce
    then show ?thesis by auto
  next
    case False
    show ?thesis
    proof (cases "take n ?es = []")
      case True
      then have ad: "a = ''.''" using a False by (simp add: render_path_def)
      have "path_elems ''.'' = []" by code_simp
      then show ?thesis using ad ne by auto
    next
      case F2: False
      then have "Suc (length a) = weight (take n ?es)"
        using a False length_join_slash by (simp add: render_path_def)
      then have "length a < length k" using wt weight_path_elems_rel False by fastforce
      then show ?thesis by auto
    qed
  qed
qed

lemma not_own_ancestor: "k \<notin> set (ancestors k)"
  using ancestor_neq by blast

subsection \<open>Removing and creating a file\<close>

lemma under_file_delete:
  "\<not> under_file fsys k \<Longrightarrow> \<not> under_file (fs_delete fsys q) k"
  by (auto simp: under_file_def list_ex_iff is_file_def fs_lookup_def fs_delete_def
      map_of_filter_key split: if_splits option.splits node.splits)

lemma fs_lookup_delete:
  "fs_lookup (fs_delete fsys k) q =
     (if q = ''/'' \<or> q = ''.'' then Some Dir else if q = k then None else fs_lookup fsys q)"
  by (simp add: fs_lookup_def fs_delete_def map_of_filter_key)

lemma os_Stat_File_not_top:
  "os_Stat fsys name = Inr (File c m) \<Longrightarrow>
   filepath_Clean name \<noteq> ''/'' \<and> filepath_Clean name \<noteq> ''.'' \<and> name \<noteq> []
   \<and> \<not> under_file fsys (filepath_Clean name)"
  by (auto simp: os_Stat_def fs_lookup_def split: if_splits option.splits)

lemma os_Stat_after_delete:
  assumes "os_Stat fsys name = Inr (File c m)"
  shows "os_Stat (fs_delete fsys (filepath_Clean name)) name = Inl ENOENT"
  using os_Stat_File_not_top [OF assms] under_file_delete [of fsys "filepath_Clean name"]
  by (simp add: os_Stat_def fs_lookup_delete)

lemma os_Remove_File:
  "os_Stat fsys name = Inr (File c m) \<Longrightarrow>
   os_Remove fsys name = (None, fs_delete fsys (filepath_Clean name))"
  by (simp add: os_Remove_def)

lemma under_file_put_self:
  "\<not> under_file fsys k \<Longrightarrow> \<not> under_file (fs_put fsys k n) k"
  using not_own_ancestor [of k]
  by (auto simp: under_file_def list_ex_iff fs_lookup_put is_file_def)

lemma os_Stat_put_self:
  assumes "\<not> under_file fsys (filepath_Clean name)" and "name \<noteq> []"
    and "filepath_Clean name \<noteq> ''/''" and "filepath_Clean name \<noteq> ''.''"
  shows "os_Stat (fs_put fsys (filepath_Clean name) n) name = Inr n"
  using assms under_file_put_self [of fsys "filepath_Clean name" n]
  by (simp add: os_Stat_def fs_lookup_put)

lemma new_node_result: "new_node fsys k n = Inr f \<Longrightarrow> f = fs_put fsys k n"
  by (auto simp: new_node_def split: sum.splits node.splits)

lemma os_Create_absent:
  assumes "os_Stat fsys name = Inl ENOENT" and "name \<noteq> []"
  shows "os_Create fsys name =
           (case new_node fsys (filepath_Clean name) (File [] 438) of
              Inl e \<Rightarrow> Inl e
            | Inr f \<Rightarrow> Inr (f, \<lparr>h_key = filepath_Clean name, h_append = False\<rparr>))"
  using assms by (simp add: os_Create_def os_OpenFile_def Let_def)

lemma os_Stat_ENOENT_not_under:
  "os_Stat fsys name = Inl ENOENT \<Longrightarrow> name \<noteq> [] \<Longrightarrow>
   \<not> under_file fsys (filepath_Clean name) \<and> fs_lookup fsys (filepath_Clean name) = None"
  by (auto simp: os_Stat_def split: if_splits option.splits)

lemma lookup_None_not_top: "fs_lookup fsys k = None \<Longrightarrow> k \<noteq> ''/'' \<and> k \<noteq> ''.''"
  by (auto simp: fs_lookup_def split: if_splits)

lemma os_Rename_result:
  assumes "os_Rename fsys old new = Inr f"
  shows "\<exists>c m. os_Stat fsys old = Inr (File c m)
           \<and> f = fs_put (fs_delete fsys (filepath_Clean old)) (filepath_Clean new) (File c m)
           \<and> filepath_Clean new \<noteq> ''/'' \<and> filepath_Clean new \<noteq> ''.''"
proof (cases "os_Stat fsys old")
  case (Inl e)
  then show ?thesis using assms by (simp add: os_Rename_def)
next
  case (Inr n)
  show ?thesis
  proof (cases n)
    case Dir
    then show ?thesis using assms Inr by (simp add: os_Rename_def)
  next
    case (File c m)
    show ?thesis
    proof (cases "os_Stat fsys new")
      case I2: (Inl e)
      show ?thesis
      proof (cases "e = ENOENT \<and> new \<noteq> []")
        case True
        then have "filepath_Clean new \<noteq> ''/'' \<and> filepath_Clean new \<noteq> ''.''"
          using I2 os_Stat_ENOENT_not_under lookup_None_not_top by blast
        moreover have "f = fs_put (fs_delete fsys (filepath_Clean old)) (filepath_Clean new) (File c m)"
          using assms Inr File I2 True new_node_result by (auto simp: os_Rename_def)
        ultimately show ?thesis using Inr File by simp
      next
        case False
        then show ?thesis using assms Inr File I2 by (cases e) (auto simp: os_Rename_def)
      qed
    next
      case R2: (Inr n2)
      show ?thesis
      proof (cases n2)
        case Dir
        then show ?thesis using assms Inr File R2 by (simp add: os_Rename_def)
      next
        case F2: (File c2 m2)
        then have "filepath_Clean new \<noteq> ''/'' \<and> filepath_Clean new \<noteq> ''.''"
          using R2 os_Stat_File_not_top by blast
        then show ?thesis using assms Inr File R2 F2 by (simp add: os_Rename_def)
      qed
    qed
  qed
qed

lemma store_body_sent: "sent (snd (store_body fp off resp w)) = sent w"
  by (auto simp: store_body_def Let_def split: sum.splits prod.splits)

lemma store_body_success_file:
  assumes "store_body fp off resp w = (None, w')"
  shows "\<exists>c m. fs_lookup (fs w') (filepath_Clean fp) = Some (File c m)"
proof -
  obtain fs2 fs3 where "os_Rename fs2 (fp @ ''.partial'') fp = Inr fs3" and "fs w' = fs3"
    using assms by (auto simp: store_body_def Let_def split: sum.splits prod.splits if_splits)
  then show ?thesis using os_Rename_result [of fs2 "fp @ ''.partial''" fp fs3]
    by (auto simp: fs_lookup_put)
qed

lemma store_body_fresh:
  assumes ab: "os_Stat (fs w) (fp @ ''.partial'') = Inl ENOENT"
    and ok: "store_body fp 0 resp w = (None, w')"
  shows "fs_lookup (fs w') (filepath_Clean fp) = Some (File (RespBody resp) 438)"
proof -
  let ?p = "fp @ ''.partial''"
  let ?kp = "filepath_Clean ?p"
  have pne: "?p \<noteq> []" by simp
  have nu: "\<not> under_file (fs w) ?kp" and ln: "fs_lookup (fs w) ?kp = None"
    using os_Stat_ENOENT_not_under [OF ab pne] by simp_all
  have nt: "?kp \<noteq> ''/'' \<and> ?kp \<noteq> ''.''" using ln lookup_None_not_top by blast
  let ?fs1 = "fs_put (fs w) ?kp (File [] 438)"
  let ?h = "\<lparr>h_key = ?kp, h_append = False\<rparr>"
  have cr: "os_Create (fs w) ?p = Inr (?fs1, ?h)"
  proof (cases "new_node (fs w) ?kp (File [] 438)")
    case (Inl e)
    then show ?thesis using ok os_Create_absent [OF ab pne]
      by (simp add: store_body_def Let_def split: if_splits)
  next
    case (Inr f)
    then show ?thesis using os_Create_absent [OF ab pne] new_node_result by fastforce
  qed
  let ?fs2 = "fs_put ?fs1 ?kp (File (RespBody resp) 438)"
  have wr: "file_write ?fs1 ?h (RespBody resp) = ?fs2"
    using nt by (simp add: file_write_def fs_lookup_put)
  have st: "os_Stat ?fs2 ?p = Inr (File (RespBody resp) 438)"
  proof -
    have "\<not> under_file ?fs1 ?kp" using nu by (rule under_file_put_self)
    then show ?thesis using os_Stat_put_self [of ?fs1 ?p] nt by simp
  qed
  obtain fs3 where rn: "os_Rename ?fs2 ?p fp = Inr fs3" and w': "fs w' = fs3"
    using ok cr wr by (auto simp: store_body_def Let_def split: sum.splits if_splits)
  show ?thesis
    using os_Rename_result [OF rn] st w' by (auto simp: fs_lookup_put)
qed

subsection \<open>Properties of the downloader\<close>

text \<open>
  Claim C3. When a partial file with positive size exists, the first request
  carries the range header; if its answer has a status other than 206, the
  partial file is deleted, the download starts again from offset 0, and the
  request is sent once more without the header: whatever else happens, the
  call sends exactly these two requests. A transport error of the second
  request, or an answer to it that is neither 200 nor 206, is the error of the
  call, with the partial file gone. When the call succeeds, the file at the
  final path consists of exactly the body of the second answer.
\<close>

theorem downloadFile_range_fallback:
  assumes st: "os_Stat (fs w) (filepath @ ''.partial'') = Inr (File c m)"
    and ne: "c \<noteq> []"
    and uv: "url_valid e url"
    and r1: "http_Do e (sent w @ [range_request url (int (length c))]) = Some resp"
    and s1: "StatusCode resp \<noteq> 206"
  shows "sent (snd (downloadFile e url filepath w))
           = sent w @ [range_request url (int (length c)), plain_request url]
     \<and> os_Stat (fs (after_fallback url filepath (int (length c)) w)) (filepath @ ''.partial'')
           = Inl ENOENT
     \<and> downloadFile e url filepath w =
          (case http_Do e (sent w @ [range_request url (int (length c)), plain_request url]) of
             None \<Rightarrow> (Some ErrDo, after_fallback url filepath (int (length c)) w)
           | Some resp2 \<Rightarrow>
               store_body filepath 0 resp2 (after_fallback url filepath (int (length c)) w))
     \<and> (\<forall>resp2. http_Do e (sent w @ [range_request url (int (length c)), plain_request url])
                    = Some resp2
                  \<and> StatusCode resp2 \<noteq> 200 \<and> StatusCode resp2 \<noteq> 206 \<longrightarrow>
            downloadFile e url filepath w =
              (Some (ErrStatus (StatusCode resp2)),
               after_fallback url filepath (int (length c)) w))
     \<and> (\<forall>w'. downloadFile e url filepath w = (None, w') \<longrightarrow>
            (\<exists>resp2. http_Do e (sent w @ [range_request url (int (length c)), plain_request url])
                        = Some resp2
                     \<and> fs_lookup (fs w') (filepath_Clean filepath)
                        = Some (File (RespBody resp2) 438)))"
proof -
  let ?w2 = "after_fallback url filepath (int (length c)) w"
  let ?reqs = "sent w @ [range_request url (int (length c)), plain_request url]"
  have pos: "int (length c) > 0" using ne by simp
  have rm: "snd (os_Remove (fs w) (filepath @ ''.partial''))
              = fs_delete (fs w) (filepath_Clean (filepath @ ''.partial''))"
    using os_Remove_File [OF st] by simp
  have main: "downloadFile e url filepath w =
          (case http_Do e ?reqs of
             None \<Rightarrow> (Some ErrDo, ?w2)
           | Some resp2 \<Rightarrow> store_body filepath 0 resp2 ?w2)"
    using st uv r1 s1 pos rm
    by (simp add: downloadFile_def Let_def node_size_def range_request_def plain_request_def
        after_fallback_def split: option.splits)
  have gone: "os_Stat (fs ?w2) (filepath @ ''.partial'') = Inl ENOENT"
    using os_Stat_after_delete [OF st] by (simp add: after_fallback_def)
  have snt: "sent (snd (downloadFile e url filepath w)) = ?reqs"
    by (cases "http_Do e ?reqs") (simp_all add: main store_body_sent after_fallback_def)
  have bad: "downloadFile e url filepath w = (Some (ErrStatus (StatusCode resp2)), ?w2)"
    if "http_Do e ?reqs = Some resp2" "StatusCode resp2 \<noteq> 200" "StatusCode resp2 \<noteq> 206"
    for resp2
    using that by (simp add: main store_body_def)
  have good: "\<exists>resp2. http_Do e ?reqs = Some resp2
                 \<and> fs_lookup (fs w') (filepath_Clean filepath) = Some (File (RespBody resp2) 438)"
    if ok: "downloadFile e url filepath w = (None, w')" for w'
  proof (cases "http_Do e ?reqs")
    case None
    then show ?thesis using ok main by simp
  next
    case (Some resp2)
    then have "store_body filepath 0 resp2 ?w2 = (None, w')" using ok main by simp
    then show ?thesis using store_body_fresh [OF gone] Some by blast
  qed
  show ?thesis using main gone snt bad good by blast
qed

theorem downloadFile_range_fallback_witness:
  "os_Stat (fs partial_world) (''/dl/w.tar.gz'' @ ''.partial'') = Inr (File ''FULL'' 438)
   \<and> ''FULL'' \<noteq> []
   \<and> url_valid plain_server ''https://host/w.tar.gz''
   \<and> http_Do plain_server (sent partial_world @ [range_request ''https://host/w.tar.gz'' 4])
        = Some \<lparr>StatusCode = 200, RespBody = ''FULLBODY'', RespBodyErr = False\<rparr>
   \<and> StatusCode \<lparr>StatusCode = 200, RespBody = ''FULLBODY'', RespBodyErr = False\<rparr> \<noteq> 206
   \<and> sent (snd (downloadFile plain_server ''https://host/w.tar.gz'' ''/dl/w.tar.gz'' partial_world))
        = [range_request ''https://host/w.tar.gz'' 4, plain_request ''https://host/w.tar.gz'']
   \<and> downloadFile plain_server ''https://host/w.tar.gz'' ''/dl/w.tar.gz'' partial_world
        = (None, \<lparr>fs = [(''/dl/w.tar.gz'', File ''FULLBODY'' 438), (''/dl'', Dir)],
                  sent = [range_request ''https://host/w.tar.gz'' 4,
                          plain_request ''https://host/w.tar.gz'']\<rparr>)"
proof -
  have h1: "os_Stat (fs partial_world) (''/dl/w.tar.gz'' @ ''.partial'') = Inr (File ''FULL'' 438)"
    by code_simp
  have h3: "url_valid plain_server ''https://host/w.tar.gz''" by (simp add: plain_server_def)
  have h4: "http_Do plain_server
              (sent partial_world @ [range_request ''https://host/w.tar.gz'' (int (length ''FULL''))])
            = Some \<lparr>StatusCode = 200, RespBody = ''FULLBODY'', RespBodyErr = False\<rparr>"
    by (simp add: plain_server_def)
  have h5: "StatusCode \<lparr>StatusCode = 200, RespBody = ''FULLBODY'', RespBodyErr = False\<rparr> \<noteq> 206"
    by simp
  have s: "sent partial_world = []" by (simp add: partial_world_def)
  have r: "downloadFile plain_server ''https://host/w.tar.gz'' ''/dl/w.tar.gz'' partial_world
        = (None, \<lparr>fs = [(''/dl/w.tar.gz'', File ''FULLBODY'' 438), (''/dl'', Dir)],
                  sent = [range_request ''https://host/w.tar.gz'' 4,
                          plain_request ''https://host/w.tar.gz'']\<rparr>)"
    by code_simp
  have t: "sent (snd (downloadFile plain_server ''https://host/w.tar.gz'' ''/dl/w.tar.gz'' partial_world))
        = sent partial_world @ [range_request ''https://host/w.tar.gz'' (int (length ''FULL'')),
                                plain_request ''https://host/w.tar.gz'']"
    using downloadFile_range_fallback [OF h1 _ h3 h4 h5] by blast
  show ?thesis using h1 h3 h4 h5 s r t by simp
qed

subsection \<open>Properties of the stages\<close>

text \<open>
  No stage from the integrity check on sends a request, and none of them ends
  the run as already up to date.
\<close>

lemma install_stage_sent: "sent (snd (install_stage e fl release w)) = sent w"
  by (auto simp: install_stage_def split: prod.splits option.splits sum.splits)

lemma replace_stage_sent: "sent (snd (replace_stage e fl release w)) = sent w"
  by (auto simp: replace_stage_def install_stage_sent split: prod.splits option.splits)

lemma verify_stage_sent: "sent (snd (verify_stage e fl release w)) = sent w"
  by (auto simp: verify_stage_def replace_stage_sent split: sum.splits)

lemma install_stage_past: "past_verification (fst (install_stage e fl release w))"
  by (auto simp: install_stage_def past_verification_def split: prod.splits option.splits sum.splits)

lemma replace_stage_past: "past_verification (fst (replace_stage e fl release w))"
  by (auto simp: replace_stage_def install_stage_past split: prod.splits option.splits)
     (simp_all add: past_verification_def)

lemma past_not_uptodate: "past_verification out \<Longrightarrow> out \<noteq> AlreadyUpToDate v"
  by (auto simp: past_verification_def)

lemma verify_stage_not_uptodate: "fst (verify_stage e fl release w) \<noteq> AlreadyUpToDate v"
  using replace_stage_past [of e fl release w] past_not_uptodate
  by (auto simp: verify_stage_def split: sum.splits)

lemma download_stage_not_uptodate: "fst (download_stage e fl release w) \<noteq> AlreadyUpToDate v"
  using verify_stage_not_uptodate
  by (auto simp: download_stage_def split: prod.splits option.splits)

lemma download_dir_stage_not_uptodate:
  "fst (download_dir_stage e fl release w) \<noteq> AlreadyUpToDate v"
  using download_stage_not_uptodate by (auto simp: download_dir_stage_def)

lemma map_of_filter_fst:
  "map_of (filter (\<lambda>e. P (fst e)) xs) q = (if P q then map_of xs q else None)"
  by (induction xs) auto

lemma key_within_not_top:
  assumes "key_within k q" and "k \<noteq> ''/''" and "k \<noteq> ''.''"
  shows "q \<noteq> ''/'' \<and> q \<noteq> ''.''"
proof -
  have "\<not> key_within k ''/''"
    using assms(2,3) by (cases k) (auto simp: key_within_def Let_def)
  moreover have "\<not> key_within k ''.''"
    using assms(2,3) by (cases k) (auto simp: key_within_def Let_def)
  ultimately show ?thesis using assms(1) by auto
qed

lemma os_RemoveAll_removes:
  assumes "os_RemoveAll fsys path = (None, fs1)" and "path \<noteq> []"
    and "key_within (filepath_Clean path) q"
  shows "fs_lookup fs1 q = None"
proof -
  let ?k = "filepath_Clean path"
  have nt: "?k \<noteq> ''/'' \<and> ?k \<noteq> ''.''"
    using assms(1,2) by (auto simp: os_RemoveAll_def Let_def split: if_splits)
  have f: "fs1 = filter (\<lambda>e. \<not> key_within ?k (fst e)) fsys"
    using assms(1,2) by (auto simp: os_RemoveAll_def Let_def split: if_splits)
  have "q \<noteq> ''/'' \<and> q \<noteq> ''.''" using key_within_not_top assms(3) nt by blast
  then show ?thesis
    using assms(3) map_of_filter_fst [of "\<lambda>x. \<not> key_within ?k x" fsys q]
    by (simp add: f fs_lookup_def)
qed

lemma os_RemoveAll_keeps:
  assumes "os_RemoveAll fsys path = (err, fs1)" and "\<not> key_within (filepath_Clean path) q"
  shows "fs_lookup fs1 q = fs_lookup fsys q"
  using assms map_of_filter_fst [of "\<lambda>x. \<not> key_within (filepath_Clean path) x" fsys q]
  by (auto simp: os_RemoveAll_def Let_def fs_lookup_def split: if_splits)

lemma os_Rename_newpath: "os_Rename fsys old new = Inr f \<Longrightarrow> new \<noteq> []"
  by (auto simp: os_Rename_def os_Stat_def split: sum.splits node.splits)

lemma store_body_success_path:
  assumes "store_body fp off resp w = (None, w')"
  shows "fp \<noteq> []"
proof -
  obtain fs2 fs3 where "os_Rename fs2 (fp @ ''.partial'') fp = Inr fs3"
    using assms by (auto simp: store_body_def Let_def split: sum.splits prod.splits if_splits)
  then show ?thesis by (rule os_Rename_newpath)
qed

lemma downloadFile_success_store:
  assumes "downloadFile e url fp w = (None, w')"
  shows "\<exists>off resp w0. store_body fp off resp w0 = (None, w')"
  using assms
  by (auto simp: downloadFile_def Let_def split: if_splits option.splits)

lemma downloadFile_success_file:
  assumes "downloadFile e url fp w = (None, w')"
  shows "(\<exists>c m. fs_lookup (fs w') (filepath_Clean fp) = Some (File c m))
         \<and> os_Stat (fs w') fp \<noteq> Inl ENOENT"
proof -
  obtain off resp w0 where s: "store_body fp off resp w0 = (None, w')"
    using downloadFile_success_store [OF assms] by blast
  have f: "\<exists>c m. fs_lookup (fs w') (filepath_Clean fp) = Some (File c m)"
    using store_body_success_file [OF s] .
  have "fp \<noteq> []" using store_body_success_path [OF s] .
  then have "os_Stat (fs w') fp \<noteq> Inl ENOENT"
    using f by (auto simp: os_Stat_def)
  then show ?thesis using f by blast
qed

lemma getLatestRelease_world:
  "getLatestRelease e p w = (Inr release, w1) \<Longrightarrow>
   w1 = w\<lparr>sent := sent w @ [plain_request (UpdateApiUrl p)]\<rparr>"
  by (auto simp: getLatestRelease_def Let_def plain_request_def split: if_splits option.splits)

lemma download_stage_skip:
  assumes "os_Stat (fs w) (archive_path fl release) \<noteq> Inl ENOENT"
  shows "download_stage e fl release w = verify_stage e fl release w"
    and "sent (snd (download_stage e fl release w)) = sent w"
  using assms by (simp_all add: download_stage_def verify_stage_sent)

lemma version_stage_skip_sent:
  assumes "os_Stat (fs w) (archive_path fl release) \<noteq> Inl ENOENT"
  shows "sent (snd (version_stage e fl release w)) = sent w"
  using download_stage_skip(2) [OF assms, of e]
  by (auto simp: version_stage_def download_dir_stage_def split: sum.splits)

subsection \<open>Properties of the orchestrator\<close>

text \<open>
  Claim C9, as stated, fails. The marker is read only when \<open>os.Stat\<close>
  finds the installation root. For the empty install path
  (\<open>--install-path ""\<close>) \<open>os.Stat\<close> reports that it does not exist, while
  the marker under it, the file \<open>.windsurf-release\<close> of the working
  directory, is readable. With the marker holding 9.9.9, the latest version
  1.5.0 and no force flag, the installed version is not older than the latest,
  and yet the run does not exit: it downloads the archive, installs 1.5.0
  into the working directory and overwrites the marker.
\<close>

theorem version_check_skipped_for_empty_install_path:
  "os_ReadFile (fs cwd_installed_world)
       (filepath_Join (installPath (home_flags\<lparr>installPath := []\<rparr>)) VersionMarker)
     = Inr ''9.9.9''
   \<and> compareVersions (strings_TrimSpace ''9.9.9'') (WindsurfVersion release_150) = 1
   \<and> \<not> forceUpdate (home_flags\<lparr>installPath := []\<rparr>)
   \<and> fst (version_stage (update_server ''TARBALL'' ''n'') (home_flags\<lparr>installPath := []\<rparr>)
             release_150 cwd_installed_world) = Updated None
   \<and> fst (main (update_server ''TARBALL'' ''n'') empty_install_path cwd_installed_world)
       = Updated None
   \<and> os_ReadFile (fs (snd (main (update_server ''TARBALL'' ''n'') empty_install_path
                              cwd_installed_world))) ''.windsurf-release'' = Inr ''1.5.0''"
proof -
  have a: "os_ReadFile (fs cwd_installed_world)
       (filepath_Join (installPath (home_flags\<lparr>installPath := []\<rparr>)) VersionMarker)
     = Inr ''9.9.9''" by code_simp
  have b: "compareVersions (strings_TrimSpace ''9.9.9'') (WindsurfVersion release_150) = 1"
    by code_simp
  have c: "\<not> forceUpdate (home_flags\<lparr>installPath := []\<rparr>)" by code_simp
  have d: "fst (version_stage (update_server ''TARBALL'' ''n'') (home_flags\<lparr>installPath := []\<rparr>)
             release_150 cwd_installed_world) = Updated None" by code_simp
  have e: "fst (main (update_server ''TARBALL'' ''n'') empty_install_path cwd_installed_world)
       = Updated None" by code_simp
  have f: "os_ReadFile (fs (snd (main (update_server ''TARBALL'' ''n'') empty_install_path
                              cwd_installed_world))) ''.windsurf-release'' = Inr ''1.5.0''"
    by code_simp
  show ?thesis using a b c d e f by blast
qed

text \<open>
  Claim C9, amended. When the version marker cannot be read (it is absent, or
  not a readable file), the run goes on with the update whatever the versions
  are, and does not fail; so it does when the force flag is set, and when
  \<open>os.Stat\<close> reports that the installation root does not exist, as it does
  for the empty install path: the marker is then not read at all. When
  \<open>os.Stat\<close> finds the installation root, the force flag is not set and the
  marker is readable, the run ends successfully as already up to date, with
  nothing changed, exactly when the installed version (the marker without
  leading and trailing white space) compares greater than or equal to the
  latest version; when it compares less, the run goes on with the update.
\<close>

theorem version_stage_decision:
  "(os_ReadFile (fs w) (filepath_Join (installPath fl) VersionMarker) = Inl err \<longrightarrow>
      version_stage e fl release w = download_dir_stage e fl release w)
   \<and> (forceUpdate fl \<longrightarrow> version_stage e fl release w = download_dir_stage e fl release w)
   \<and> (os_Stat (fs w) (installPath fl) = Inl ENOENT \<longrightarrow>
        version_stage e fl release w = download_dir_stage e fl release w)
   \<and> (installPath fl = [] \<longrightarrow>
        version_stage e fl release w = download_dir_stage e fl release w)
   \<and> (os_Stat (fs w) (installPath fl) \<noteq> Inl ENOENT \<and> \<not> forceUpdate fl
       \<and> os_ReadFile (fs w) (filepath_Join (installPath fl) VersionMarker) = Inr vsn \<longrightarrow>
        ((version_stage e fl release w = (AlreadyUpToDate (strings_TrimSpace vsn), w))
           = (compareVersions (strings_TrimSpace vsn) (WindsurfVersion release) \<ge> 0))
        \<and> ((\<exists>v. fst (version_stage e fl release w) = AlreadyUpToDate v)
           = (compareVersions (strings_TrimSpace vsn) (WindsurfVersion release) \<ge> 0))
        \<and> (compareVersions (strings_TrimSpace vsn) (WindsurfVersion release) < 0 \<longrightarrow>
             version_stage e fl release w = download_dir_stage e fl release w))
   \<and> fst (download_dir_stage e fl release w) \<noteq> AlreadyUpToDate v'"
proof -
  have a: "version_stage e fl release w = download_dir_stage e fl release w"
    if "os_ReadFile (fs w) (filepath_Join (installPath fl) VersionMarker) = Inl err"
    using that by (simp add: version_stage_def)
  have b: "version_stage e fl release w = download_dir_stage e fl release w" if "forceUpdate fl"
    using that by (simp add: version_stage_def)
  have s: "version_stage e fl release w = download_dir_stage e fl release w"
    if "os_Stat (fs w) (installPath fl) = Inl ENOENT"
    using that by (simp add: version_stage_def)
  have s': "version_stage e fl release w = download_dir_stage e fl release w"
    if "installPath fl = []"
    using that by (simp add: version_stage_def os_Stat_def)
  have nd: "download_dir_stage e fl release w \<noteq> (AlreadyUpToDate v, w')" for v w'
    using download_dir_stage_not_uptodate [of e fl release w v]
    by (metis fst_conv)
  have nd': "fst (download_dir_stage e fl release w) \<noteq> AlreadyUpToDate v" for v
    by (rule download_dir_stage_not_uptodate)
  have c: "((version_stage e fl release w = (AlreadyUpToDate (strings_TrimSpace vsn), w))
           = (compareVersions (strings_TrimSpace vsn) (WindsurfVersion release) \<ge> 0))
        \<and> ((\<exists>v. fst (version_stage e fl release w) = AlreadyUpToDate v)
           = (compareVersions (strings_TrimSpace vsn) (WindsurfVersion release) \<ge> 0))
        \<and> (compareVersions (strings_TrimSpace vsn) (WindsurfVersion release) < 0 \<longrightarrow>
             version_stage e fl release w = download_dir_stage e fl release w)"
    if "os_Stat (fs w) (installPath fl) \<noteq> Inl ENOENT" "\<not> forceUpdate fl"
      "os_ReadFile (fs w) (filepath_Join (installPath fl) VersionMarker) = Inr vsn"
  proof (cases "compareVersions (strings_TrimSpace vsn) (WindsurfVersion release) \<ge> 0")
    case True
    then show ?thesis using that by (simp add: version_stage_def)
  next
    case False
    then have "version_stage e fl release w = download_dir_stage e fl release w"
      using that by (simp add: version_stage_def)
    then show ?thesis using False nd nd' by simp
  qed
  show ?thesis using a b s s' c nd' by blast
qed

theorem version_stage_decision_witness:
  "os_Stat (fs (installed_world ''1.5.0'')) (installPath home_flags) \<noteq> Inl ENOENT
   \<and> \<not> forceUpdate home_flags
   \<and> os_ReadFile (fs (installed_world ''1.5.0''))
        (filepath_Join (installPath home_flags) VersionMarker) = Inr ''1.5.0''
   \<and> compareVersions (strings_TrimSpace ''1.5.0'') (WindsurfVersion release_150) \<ge> 0
   \<and> version_stage plain_server home_flags release_150 (installed_world ''1.5.0'')
        = (AlreadyUpToDate (strings_TrimSpace ''1.5.0''), installed_world ''1.5.0'')
   \<and> os_ReadFile (fs (installed_world ''1.5.0''))
        (filepath_Join (installPath (home_flags\<lparr>installPath := ''/opt/none''\<rparr>)) VersionMarker)
        = Inl ENOENT
   \<and> os_Stat (fs (installed_world ''1.5.0''))
        (installPath (home_flags\<lparr>installPath := ''/opt/none''\<rparr>)) = Inl ENOENT
   \<and> version_stage plain_server (home_flags\<lparr>installPath := ''/opt/none''\<rparr>) release_150
        (installed_world ''1.5.0'')
      = download_dir_stage plain_server (home_flags\<lparr>installPath := ''/opt/none''\<rparr>) release_150
        (installed_world ''1.5.0'')
   \<and> forceUpdate (home_flags\<lparr>forceUpdate := True\<rparr>)
   \<and> version_stage plain_server (home_flags\<lparr>forceUpdate := True\<rparr>) release_150
        (installed_world ''1.5.0'')
      = download_dir_stage plain_server (home_flags\<lparr>forceUpdate := True\<rparr>) release_150
        (installed_world ''1.5.0'')
   \<and> installPath (home_flags\<lparr>installPath := []\<rparr>) = []
   \<and> version_stage plain_server (home_flags\<lparr>installPath := []\<rparr>) release_150
        cwd_installed_world
      = download_dir_stage plain_server (home_flags\<lparr>installPath := []\<rparr>) release_150
        cwd_installed_world"
proof -
  have h1: "os_Stat (fs (installed_world ''1.5.0'')) (installPath home_flags) \<noteq> Inl ENOENT"
    by code_simp
  have h2: "\<not> forceUpdate home_flags" by code_simp
  have h3: "os_ReadFile (fs (installed_world ''1.5.0''))
        (filepath_Join (installPath home_flags) VersionMarker) = Inr ''1.5.0''"
    by code_simp
  have h4: "compareVersions (strings_TrimSpace ''1.5.0'') (WindsurfVersion release_150) \<ge> 0"
    by code_simp
  have h5: "os_ReadFile (fs (installed_world ''1.5.0''))
        (filepath_Join (installPath (home_flags\<lparr>installPath := ''/opt/none''\<rparr>)) VersionMarker)
        = Inl ENOENT"
    by code_simp
  have h6: "forceUpdate (home_flags\<lparr>forceUpdate := True\<rparr>)" by simp
  have h7: "os_Stat (fs (installed_world ''1.5.0''))
        (installPath (home_flags\<lparr>installPath := ''/opt/none''\<rparr>)) = Inl ENOENT"
    by code_simp
  have h8: "installPath (home_flags\<lparr>installPath := []\<rparr>) = []" by simp
  note t1 = version_stage_decision
      [where w = "installed_world ''1.5.0''" and fl = home_flags and vsn = "''1.5.0''"
         and release = release_150 and e = plain_server]
  note t2 = version_stage_decision
      [where w = "installed_world ''1.5.0''" and fl = "home_flags\<lparr>installPath := ''/opt/none''\<rparr>"
         and err = ENOENT and release = release_150 and e = plain_server]
  note t3 = version_stage_decision
      [where w = "installed_world ''1.5.0''" and fl = "home_flags\<lparr>forceUpdate := True\<rparr>"
         and release = release_150 and e = plain_server]
  note t4 = version_stage_decision
      [where w = cwd_installed_world and fl = "home_flags\<lparr>installPath := []\<rparr>"
         and release = release_150 and e = plain_server]
  have c1: "version_stage plain_server home_flags release_150 (installed_world ''1.5.0'')
        = (AlreadyUpToDate (strings_TrimSpace ''1.5.0''), installed_world ''1.5.0'')"
    using t1 h1 h2 h3 h4 by blast
  have c2: "version_stage plain_server (home_flags\<lparr>installPath := ''/opt/none''\<rparr>) release_150
        (installed_world ''1.5.0'')
      = download_dir_stage plain_server (home_flags\<lparr>installPath := ''/opt/none''\<rparr>) release_150
        (installed_world ''1.5.0'')"
    using t2 h5 h7 by blast
  have c3: "version_stage plain_server (home_flags\<lparr>forceUpdate := True\<rparr>) release_150
        (installed_world ''1.5.0'')
      = download_dir_stage plain_server (home_flags\<lparr>forceUpdate := True\<rparr>) release_150
        (installed_world ''1.5.0'')"
    using t3 h6 by blast
  have c4: "version_stage plain_server (home_flags\<lparr>installPath := []\<rparr>) release_150
        cwd_installed_world
      = download_dir_stage plain_server (home_flags\<lparr>installPath := []\<rparr>) release_150
        cwd_installed_world"
    using t4 h8 by blast
  show ?thesis using h1 h2 h3 h4 h5 h6 h7 h8 c1 c2 c3 c4 by blast
qed

text \<open>
  Claim C8, as stated, fails. The question is asked after the download: a run
  that finds an installation and no archive downloads the archive, verifies it
  and only then asks. When the user refuses, the run ends as aborted, and the
  archive, which was not there before the run, is in the download directory:
  the run has modified the file tree.
\<close>

theorem refused_run_keeps_downloaded_archive:
  "os_Stat (fs (installed_world ''1.4.0'')) ''/home/u/apps/windsurf'' = Inr Dir
   \<and> os_Stat (fs (installed_world ''1.4.0'')) ''/home/u/Downloads/windsurf-1.5.0.tar.gz''
       = Inl ENOENT
   \<and> \<not> opt_yes no_options
   \<and> \<not> affirmative (stdin_response (update_server ''TARBALL'' ''n''))
   \<and> fst (main (update_server ''TARBALL'' ''n'') no_options (installed_world ''1.4.0''))
       = Exit1 Aborted
   \<and> os_ReadFile (fs (snd (main (update_server ''TARBALL'' ''n'') no_options
                              (installed_world ''1.4.0''))))
        ''/home/u/Downloads/windsurf-1.5.0.tar.gz'' = Inr ''TARBALL''
   \<and> fs (snd (main (update_server ''TARBALL'' ''n'') no_options (installed_world ''1.4.0'')))
       \<noteq> fs (installed_world ''1.4.0'')"
proof -
  have a: "os_Stat (fs (installed_world ''1.4.0'')) ''/home/u/apps/windsurf'' = Inr Dir"
    by code_simp
  have b: "os_Stat (fs (installed_world ''1.4.0'')) ''/home/u/Downloads/windsurf-1.5.0.tar.gz''
       = Inl ENOENT" by code_simp
  have c: "\<not> opt_yes no_options" by code_simp
  have d: "\<not> affirmative (stdin_response (update_server ''TARBALL'' ''n''))" by code_simp
  have e: "fst (main (update_server ''TARBALL'' ''n'') no_options (installed_world ''1.4.0''))
       = Exit1 Aborted" by code_simp
  have f: "os_ReadFile (fs (snd (main (update_server ''TARBALL'' ''n'') no_options
                              (installed_world ''1.4.0''))))
        ''/home/u/Downloads/windsurf-1.5.0.tar.gz'' = Inr ''TARBALL''" by code_simp
  have g: "fs (snd (main (update_server ''TARBALL'' ''n'') no_options (installed_world ''1.4.0'')))
       \<noteq> fs (installed_world ''1.4.0'')" by code_simp
  show ?thesis using a b c d e f g by blast
qed

text \<open>
  Claim C8, amended. When the installation root exists: without \<open>--yes\<close> and
  without an answer starting with \<open>Y\<close> or \<open>y\<close> the run ends as aborted
  and the state is exactly what it was when the question was asked. That is
  the state in which the download stage was entered when the archive was
  already in the download directory, and the state the download left when the
  archive was downloaded in this run: the archive stays in the download
  directory, nothing else has changed, and the installation root is
  untouched. With \<open>--yes\<close> or such an answer the root is removed with
  everything below it and nothing else, before it is created again and the
  archive extracted; a failing removal ends the run.
\<close>

theorem replace_stage_confirmation:
  assumes ex: "os_Stat (fs w) (installPath fl) \<noteq> Inl ENOENT"
  shows "(\<not> yes fl \<and> \<not> affirmative (stdin_response e) \<longrightarrow>
            replace_stage e fl release w = (Exit1 Aborted, w))
     \<and> (\<not> yes fl \<and> \<not> affirmative (stdin_response e)
          \<and> calculateSHA256 e (fs w) (archive_path fl release) = Inr (SHA256Hash release)
          \<and> os_Stat (fs w) (archive_path fl release) \<noteq> Inl ENOENT \<longrightarrow>
            download_stage e fl release w = (Exit1 Aborted, w))
     \<and> (\<not> yes fl \<and> \<not> affirmative (stdin_response e)
          \<and> os_Stat (fs w) (archive_path fl release) = Inl ENOENT
          \<and> downloadFile e (URL release) (archive_path fl release) w = (None, w1)
          \<and> calculateSHA256 e (fs w1) (archive_path fl release) = Inr (SHA256Hash release)
          \<and> os_Stat (fs w1) (installPath fl) \<noteq> Inl ENOENT \<longrightarrow>
            download_stage e fl release w = (Exit1 Aborted, w1))
     \<and> ((yes fl \<or> affirmative (stdin_response e))
          \<and> os_RemoveAll (fs w) (installPath fl) = (Some err, fs1) \<longrightarrow>
            replace_stage e fl release w = (Exit1 (RemoveFailed err), w\<lparr>fs := fs1\<rparr>))
     \<and> ((yes fl \<or> affirmative (stdin_response e))
          \<and> os_RemoveAll (fs w) (installPath fl) = (None, fs2) \<longrightarrow>
            replace_stage e fl release w
              = install_stage e fl release (w\<lparr>fs := recreate_install_dir fl fs2\<rparr>)
            \<and> (key_within (filepath_Clean (installPath fl)) q \<longrightarrow> fs_lookup fs2 q = None)
            \<and> (\<not> key_within (filepath_Clean (installPath fl)) q \<longrightarrow>
                  fs_lookup fs2 q = fs_lookup (fs w) q))"
proof -
  have ne: "installPath fl \<noteq> []" using ex by (auto simp: os_Stat_def)
  have a: "replace_stage e fl release w = (Exit1 Aborted, w)"
    if "\<not> yes fl \<and> \<not> affirmative (stdin_response e)"
    using that ex by (simp add: replace_stage_def)
  have b: "download_stage e fl release w = (Exit1 Aborted, w)"
    if "\<not> yes fl \<and> \<not> affirmative (stdin_response e)"
      "calculateSHA256 e (fs w) (archive_path fl release) = Inr (SHA256Hash release)"
      "os_Stat (fs w) (archive_path fl release) \<noteq> Inl ENOENT"
    using that a by (simp add: download_stage_def verify_stage_def)
  have b': "download_stage e fl release w = (Exit1 Aborted, w1)"
    if "\<not> yes fl \<and> \<not> affirmative (stdin_response e)"
      "os_Stat (fs w) (archive_path fl release) = Inl ENOENT"
      "downloadFile e (URL release) (archive_path fl release) w = (None, w1)"
      "calculateSHA256 e (fs w1) (archive_path fl release) = Inr (SHA256Hash release)"
      "os_Stat (fs w1) (installPath fl) \<noteq> Inl ENOENT"
    using that by (simp add: download_stage_def verify_stage_def replace_stage_def)
  have c: "replace_stage e fl release w = (Exit1 (RemoveFailed err), w\<lparr>fs := fs1\<rparr>)"
    if "yes fl \<or> affirmative (stdin_response e)"
      "os_RemoveAll (fs w) (installPath fl) = (Some err, fs1)"
    using that ex by (auto simp: replace_stage_def)
  have d: "replace_stage e fl release w
              = install_stage e fl release (w\<lparr>fs := recreate_install_dir fl fs2\<rparr>)"
    if "yes fl \<or> affirmative (stdin_response e)"
      "os_RemoveAll (fs w) (installPath fl) = (None, fs2)"
    using that ex by (auto simp: replace_stage_def)
  have f: "fs_lookup fs2 q = None"
    if "os_RemoveAll (fs w) (installPath fl) = (None, fs2)"
      "key_within (filepath_Clean (installPath fl)) q"
    using os_RemoveAll_removes [OF that(1) ne that(2)] .
  have g: "fs_lookup fs2 q = fs_lookup (fs w) q"
    if "os_RemoveAll (fs w) (installPath fl) = (None, fs2)"
      "\<not> key_within (filepath_Clean (installPath fl)) q"
    using os_RemoveAll_keeps [OF that] .
  show ?thesis using a b b' c d f g by blast
qed

theorem replace_stage_confirmation_witness:
  "os_Stat (fs downloaded_world) (installPath home_flags) \<noteq> Inl ENOENT
   \<and> \<not> yes home_flags \<and> \<not> affirmative (stdin_response (update_server ''TARBALL'' ''n''))
   \<and> replace_stage (update_server ''TARBALL'' ''n'') home_flags release_150 downloaded_world
       = (Exit1 Aborted, downloaded_world)
   \<and> calculateSHA256 (update_server ''TARBALL'' ''n'') (fs downloaded_world)
        (archive_path home_flags release_150) = Inr (SHA256Hash release_150)
   \<and> os_Stat (fs downloaded_world) (archive_path home_flags release_150) \<noteq> Inl ENOENT
   \<and> download_stage (update_server ''TARBALL'' ''n'') home_flags release_150 downloaded_world
       = (Exit1 Aborted, downloaded_world)
   \<and> os_Stat (fs (installed_world ''1.4.0'')) (installPath home_flags) \<noteq> Inl ENOENT
   \<and> os_Stat (fs (installed_world ''1.4.0'')) (archive_path home_flags release_150) = Inl ENOENT
   \<and> downloadFile (update_server ''TARBALL'' ''n'') (URL release_150)
        (archive_path home_flags release_150) (installed_world ''1.4.0'')
       = (None, downloaded_world\<lparr>sent := [plain_request (URL release_150)]\<rparr>)
   \<and> calculateSHA256 (update_server ''TARBALL'' ''n'')
        (fs (downloaded_world\<lparr>sent := [plain_request (URL release_150)]\<rparr>))
        (archive_path home_flags release_150) = Inr (SHA256Hash release_150)
   \<and> os_Stat (fs (downloaded_world\<lparr>sent := [plain_request (URL release_150)]\<rparr>))
        (installPath home_flags) \<noteq> Inl ENOENT
   \<and> download_stage (update_server ''TARBALL'' ''n'') home_flags release_150
        (installed_world ''1.4.0'')
       = (Exit1 Aborted, downloaded_world\<lparr>sent := [plain_request (URL release_150)]\<rparr>)
   \<and> affirmative (stdin_response (update_server ''TARBALL'' ''yes''))
   \<and> os_RemoveAll (fs downloaded_world) (installPath home_flags)
       = (None, [(''/home/u/Downloads/windsurf-1.5.0.tar.gz'', File ''TARBALL'' 438),
                 (''/home/u/apps'', Dir), (''/home/u/Downloads'', Dir),
                 (''/home/u'', Dir), (''/home'', Dir)])
   \<and> key_within (filepath_Clean (installPath home_flags))
        ''/home/u/apps/windsurf/.windsurf-release''
   \<and> fs_lookup [(''/home/u/Downloads/windsurf-1.5.0.tar.gz'', File ''TARBALL'' 438),
                 (''/home/u/apps'', Dir), (''/home/u/Downloads'', Dir),
                 (''/home/u'', Dir), (''/home'', Dir)]
        ''/home/u/apps/windsurf/.windsurf-release'' = None
   \<and> fst (replace_stage (update_server ''TARBALL'' ''yes'') home_flags release_150
        downloaded_world) = Updated None
   \<and> os_Stat (fs downloaded_world) (installPath (home_flags\<lparr>installPath := ''/'', yes := True\<rparr>))
       \<noteq> Inl ENOENT
   \<and> yes (home_flags\<lparr>installPath := ''/'', yes := True\<rparr>)
   \<and> os_RemoveAll (fs downloaded_world) (installPath (home_flags\<lparr>installPath := ''/'', yes := True\<rparr>))
       = (Some EBUSY, [])
   \<and> replace_stage (update_server ''TARBALL'' ''n'') (home_flags\<lparr>installPath := ''/'', yes := True\<rparr>)
        release_150 downloaded_world
       = (Exit1 (RemoveFailed EBUSY), downloaded_world\<lparr>fs := []\<rparr>)"
proof -
  let ?fs2 = "[(''/home/u/Downloads/windsurf-1.5.0.tar.gz'', File ''TARBALL'' 438),
                 (''/home/u/apps'', Dir), (''/home/u/Downloads'', Dir),
                 (''/home/u'', Dir), (''/home'', Dir)]"
  let ?w1 = "downloaded_world\<lparr>sent := [plain_request (URL release_150)]\<rparr>"
  have h1: "os_Stat (fs downloaded_world) (installPath home_flags) \<noteq> Inl ENOENT" by code_simp
  have h2: "\<not> yes home_flags \<and> \<not> affirmative (stdin_response (update_server ''TARBALL'' ''n''))"
    by code_simp
  have h3: "calculateSHA256 (update_server ''TARBALL'' ''n'') (fs downloaded_world)
        (archive_path home_flags release_150) = Inr (SHA256Hash release_150)" by code_simp
  have h4: "os_Stat (fs downloaded_world) (archive_path home_flags release_150) \<noteq> Inl ENOENT"
    by code_simp
  have h5: "affirmative (stdin_response (update_server ''TARBALL'' ''yes''))" by code_simp
  have h6: "os_RemoveAll (fs downloaded_world) (installPath home_flags) = (None, ?fs2)"
    by code_simp
  have h7: "key_within (filepath_Clean (installPath home_flags))
        ''/home/u/apps/windsurf/.windsurf-release''" by code_simp
  have h8: "os_Stat (fs downloaded_world)
        (installPath (home_flags\<lparr>installPath := ''/'', yes := True\<rparr>)) \<noteq> Inl ENOENT"
    by code_simp
  have h9: "yes (home_flags\<lparr>installPath := ''/'', yes := True\<rparr>)" by simp
  have h10: "os_RemoveAll (fs downloaded_world)
        (installPath (home_flags\<lparr>installPath := ''/'', yes := True\<rparr>)) = (Some EBUSY, [])"
    by code_simp
  have h11: "fst (replace_stage (update_server ''TARBALL'' ''yes'') home_flags release_150
        downloaded_world) = Updated None" by code_simp
  have h12: "os_Stat (fs (installed_world ''1.4.0'')) (installPath home_flags) \<noteq> Inl ENOENT"
    by code_simp
  have h13: "os_Stat (fs (installed_world ''1.4.0'')) (archive_path home_flags release_150)
        = Inl ENOENT" by code_simp
  have h14: "downloadFile (update_server ''TARBALL'' ''n'') (URL release_150)
        (archive_path home_flags release_150) (installed_world ''1.4.0'') = (None, ?w1)"
    by code_simp
  have h15: "calculateSHA256 (update_server ''TARBALL'' ''n'') (fs ?w1)
        (archive_path home_flags release_150) = Inr (SHA256Hash release_150)" by code_simp
  have h16: "os_Stat (fs ?w1) (installPath home_flags) \<noteq> Inl ENOENT" by code_simp
  note t1 = replace_stage_confirmation
      [OF h1, where e = "update_server ''TARBALL'' ''n''" and release = release_150]
  note t2 = replace_stage_confirmation
      [OF h1, where e = "update_server ''TARBALL'' ''yes''" and release = release_150
         and ?fs2.0 = ?fs2 and q = "''/home/u/apps/windsurf/.windsurf-release''"]
  note t3 = replace_stage_confirmation
      [OF h8, where e = "update_server ''TARBALL'' ''n''" and release = release_150
         and err = EBUSY and ?fs1.0 = "[]"]
  note t4 = replace_stage_confirmation
      [OF h12, where e = "update_server ''TARBALL'' ''n''" and release = release_150
         and ?w1.0 = ?w1]
  have c1: "replace_stage (update_server ''TARBALL'' ''n'') home_flags release_150 downloaded_world
       = (Exit1 Aborted, downloaded_world)"
    using t1 h2 by blast
  have c2: "download_stage (update_server ''TARBALL'' ''n'') home_flags release_150 downloaded_world
       = (Exit1 Aborted, downloaded_world)"
    using t1 h2 h3 h4 by blast
  have c3: "fs_lookup ?fs2 ''/home/u/apps/windsurf/.windsurf-release'' = None"
    using t2 h5 h6 h7 by blast
  have c4: "replace_stage (update_server ''TARBALL'' ''n'')
        (home_flags\<lparr>installPath := ''/'', yes := True\<rparr>) release_150 downloaded_world
       = (Exit1 (RemoveFailed EBUSY), downloaded_world\<lparr>fs := []\<rparr>)"
    using t3 h9 h10 by blast
  have c5: "download_stage (update_server ''TARBALL'' ''n'') home_flags release_150
        (installed_world ''1.4.0'') = (Exit1 Aborted, ?w1)"
    using t4 h2 h13 h14 h15 h16 by blast
  show ?thesis using h1 h2 h3 h4 h5 h6 h7 h8 h9 h10 h11 h12 h13 h14 h15 h16 c1 c2 c3 c4 c5
    by blast
qed

text \<open>
  Claim C7. When something exists at the archive path of the resolved version,
  the download stage is the integrity check on the unchanged state, and no
  request is sent: of the whole run the only request is the one for the
  release descriptor. After a completed download the archive exists, so the
  download stage of a later run with the same paths and version sends
  nothing.
\<close>

theorem download_skipped_when_archive_exists:
  "(os_Stat (fs w) (archive_path fl release) \<noteq> Inl ENOENT \<longrightarrow>
       download_stage e fl release w = verify_stage e fl release w
     \<and> sent (snd (download_stage e fl release w)) = sent w)
   \<and> (downloadFile e (URL release) (archive_path fl release) w = (None, w1) \<longrightarrow>
       os_Stat (fs w1) (archive_path fl release) \<noteq> Inl ENOENT
     \<and> download_stage e2 fl release w1 = verify_stage e2 fl release w1
     \<and> sent (snd (download_stage e2 fl release w1)) = sent w1)
   \<and> (UserHomeDir e = Some homeDir
       \<and> (if opt_platform args \<noteq> [] then map_of platformMap (opt_platform args)
           else map_of platformMap (goPlatform e)) = Some updatePlatform
       \<and> getLatestRelease e updatePlatform w = (Inr release, w2)
       \<and> os_Stat (fs w) (archive_path (resolve_flags homeDir updatePlatform args) release)
           \<noteq> Inl ENOENT \<longrightarrow>
       sent (snd (main e args w)) = sent w @ [plain_request (UpdateApiUrl updatePlatform)])"
proof -
  have a: "download_stage e fl release w = verify_stage e fl release w
     \<and> sent (snd (download_stage e fl release w)) = sent w"
    if "os_Stat (fs w) (archive_path fl release) \<noteq> Inl ENOENT"
    using download_stage_skip [OF that] by simp
  have b: "os_Stat (fs w1) (archive_path fl release) \<noteq> Inl ENOENT
     \<and> download_stage e2 fl release w1 = verify_stage e2 fl release w1
     \<and> sent (snd (download_stage e2 fl release w1)) = sent w1"
    if d: "downloadFile e (URL release) (archive_path fl release) w = (None, w1)"
  proof -
    have ex: "os_Stat (fs w1) (archive_path fl release) \<noteq> Inl ENOENT"
      using downloadFile_success_file [OF d] by simp
    show ?thesis using ex download_stage_skip [OF ex] by simp
  qed
  have c: "sent (snd (main e args w)) = sent w @ [plain_request (UpdateApiUrl updatePlatform)]"
    if h: "UserHomeDir e = Some homeDir"
      and p: "(if opt_platform args \<noteq> [] then map_of platformMap (opt_platform args)
           else map_of platformMap (goPlatform e)) = Some updatePlatform"
      and g: "getLatestRelease e updatePlatform w = (Inr release, w2)"
      and s: "os_Stat (fs w) (archive_path (resolve_flags homeDir updatePlatform args) release)
           \<noteq> Inl ENOENT"
  proof -
    have w2: "w2 = w\<lparr>sent := sent w @ [plain_request (UpdateApiUrl updatePlatform)]\<rparr>"
      using getLatestRelease_world [OF g] .
    then have s2: "os_Stat (fs w2) (archive_path (resolve_flags homeDir updatePlatform args) release)
           \<noteq> Inl ENOENT" using s by simp
    have m: "main e args w = version_stage e (resolve_flags homeDir updatePlatform args) release w2"
      using h p g by (simp add: main_def)
    show ?thesis using version_stage_skip_sent [OF s2, of e] m w2 by simp
  qed
  show ?thesis using a b c by blast
qed

theorem download_skipped_when_archive_exists_witness:
  "os_Stat (fs downloaded_world) (archive_path home_flags release_150) \<noteq> Inl ENOENT
   \<and> download_stage (update_server ''TARBALL'' ''n'') home_flags release_150 downloaded_world
       = verify_stage (update_server ''TARBALL'' ''n'') home_flags release_150 downloaded_world
   \<and> sent (snd (download_stage (update_server ''TARBALL'' ''n'') home_flags release_150
                   downloaded_world)) = sent downloaded_world
   \<and> downloadFile (update_server ''TARBALL'' ''n'') (URL release_150)
        (archive_path home_flags release_150) (installed_world ''1.4.0'')
       = (None, downloaded_world\<lparr>sent := [plain_request (URL release_150)]\<rparr>)
   \<and> download_stage (update_server ''TARBALL'' ''y'') home_flags release_150
        (downloaded_world\<lparr>sent := [plain_request (URL release_150)]\<rparr>)
       = verify_stage (update_server ''TARBALL'' ''y'') home_flags release_150
        (downloaded_world\<lparr>sent := [plain_request (URL release_150)]\<rparr>)
   \<and> UserHomeDir (update_server ''TARBALL'' ''n'') = Some ''/home/u''
   \<and> (if opt_platform no_options \<noteq> [] then map_of platformMap (opt_platform no_options)
       else map_of platformMap (goPlatform (update_server ''TARBALL'' ''n''))) = Some ''linux-x64''
   \<and> getLatestRelease (update_server ''TARBALL'' ''n'') ''linux-x64'' downloaded_world
       = (Inr release_150,
          downloaded_world\<lparr>sent := [plain_request (UpdateApiUrl ''linux-x64'')]\<rparr>)
   \<and> os_Stat (fs downloaded_world)
        (archive_path (resolve_flags ''/home/u'' ''linux-x64'' no_options) release_150)
       \<noteq> Inl ENOENT
   \<and> sent (snd (main (update_server ''TARBALL'' ''n'') no_options downloaded_world))
       = [plain_request (UpdateApiUrl ''linux-x64'')]"
proof -
  have h1: "os_Stat (fs downloaded_world) (archive_path home_flags release_150) \<noteq> Inl ENOENT"
    by code_simp
  have h2: "downloadFile (update_server ''TARBALL'' ''n'') (URL release_150)
        (archive_path home_flags release_150) (installed_world ''1.4.0'')
       = (None, downloaded_world\<lparr>sent := [plain_request (URL release_150)]\<rparr>)"
    by code_simp
  have h3: "UserHomeDir (update_server ''TARBALL'' ''n'') = Some ''/home/u''" by code_simp
  have h4: "(if opt_platform no_options \<noteq> [] then map_of platformMap (opt_platform no_options)
       else map_of platformMap (goPlatform (update_server ''TARBALL'' ''n''))) = Some ''linux-x64''"
    by code_simp
  have h5: "getLatestRelease (update_server ''TARBALL'' ''n'') ''linux-x64'' downloaded_world
       = (Inr release_150,
          downloaded_world\<lparr>sent := [plain_request (UpdateApiUrl ''linux-x64'')]\<rparr>)"
    by code_simp
  have h6: "os_Stat (fs downloaded_world)
        (archive_path (resolve_flags ''/home/u'' ''linux-x64'' no_options) release_150)
       \<noteq> Inl ENOENT"
    by code_simp
  have s: "sent downloaded_world = []" by code_simp
  note t1 = download_skipped_when_archive_exists
      [where w = downloaded_world and fl = home_flags and release = release_150
         and e = "update_server ''TARBALL'' ''n''" and args = no_options
         and homeDir = "''/home/u''" and updatePlatform = "''linux-x64''"
         and ?w2.0 = "downloaded_world\<lparr>sent := [plain_request (UpdateApiUrl ''linux-x64'')]\<rparr>"]
  note t2 = download_skipped_when_archive_exists
      [where w = "installed_world ''1.4.0''" and fl = home_flags and release = release_150
         and e = "update_server ''TARBALL'' ''n''" and ?e2.0 = "update_server ''TARBALL'' ''y''"
         and ?w1.0 = "downloaded_world\<lparr>sent := [plain_request (URL release_150)]\<rparr>"]
  have c1: "download_stage (update_server ''TARBALL'' ''n'') home_flags release_150 downloaded_world
       = verify_stage (update_server ''TARBALL'' ''n'') home_flags release_150 downloaded_world
   \<and> sent (snd (download_stage (update_server ''TARBALL'' ''n'') home_flags release_150
                   downloaded_world)) = sent downloaded_world"
    using t1 h1 by blast
  have c2: "download_stage (update_server ''TARBALL'' ''y'') home_flags release_150
        (downloaded_world\<lparr>sent := [plain_request (URL release_150)]\<rparr>)
       = verify_stage (update_server ''TARBALL'' ''y'') home_flags release_150
        (downloaded_world\<lparr>sent := [plain_request (URL release_150)]\<rparr>)"
    using t2 h2 by blast
  have c3: "sent (snd (main (update_server ''TARBALL'' ''n'') no_options downloaded_world))
       = sent downloaded_world @ [plain_request (UpdateApiUrl ''linux-x64'')]"
    using t1 h3 h4 h5 h6 by blast
  have c3': "sent (snd (main (update_server ''TARBALL'' ''n'') no_options downloaded_world))
       = [plain_request (UpdateApiUrl ''linux-x64'')]"
    using c3 s by simp
  show ?thesis using h1 h2 h3 h4 h5 h6 c1 c2 c3' by blast
qed

text \<open>
  Claim C2, as stated, fails: the downloader renames the partial file to the
  final path as soon as the transfer is complete, before any digest is
  computed. With a server that delivers corrupt bytes the call of
  \<open>downloadFile\<close> succeeds and leaves them at the canonical archive path;
  the run then reports the mismatch and ends, and the file stays there.
\<close>

theorem unverified_archive_at_final_path:
  "fst (downloadFile (update_server ''CORRUPT'' ''y'') (URL release_150)
          (archive_path home_flags release_150) (installed_world ''1.4.0'')) = None
   \<and> os_ReadFile (fs (snd (downloadFile (update_server ''CORRUPT'' ''y'') (URL release_150)
          (archive_path home_flags release_150) (installed_world ''1.4.0''))))
        (archive_path home_flags release_150) = Inr ''CORRUPT''
   \<and> sha256_hex (update_server ''CORRUPT'' ''y'') ''CORRUPT'' \<noteq> SHA256Hash release_150
   \<and> fst (main (update_server ''CORRUPT'' ''y'') no_options (installed_world ''1.4.0''))
        = Exit1 (HashMismatch ''d1'' ''d0'')
   \<and> os_ReadFile (fs (snd (main (update_server ''CORRUPT'' ''y'') no_options
          (installed_world ''1.4.0'')))) ''/home/u/Downloads/windsurf-1.5.0.tar.gz''
        = Inr ''CORRUPT''"
proof -
  have a: "fst (downloadFile (update_server ''CORRUPT'' ''y'') (URL release_150)
          (archive_path home_flags release_150) (installed_world ''1.4.0'')) = None"
    by code_simp
  have b: "os_ReadFile (fs (snd (downloadFile (update_server ''CORRUPT'' ''y'') (URL release_150)
          (archive_path home_flags release_150) (installed_world ''1.4.0''))))
        (archive_path home_flags release_150) = Inr ''CORRUPT''"
    by code_simp
  have c: "sha256_hex (update_server ''CORRUPT'' ''y'') ''CORRUPT'' \<noteq> SHA256Hash release_150"
    by code_simp
  have d: "fst (main (update_server ''CORRUPT'' ''y'') no_options (installed_world ''1.4.0''))
        = Exit1 (HashMismatch ''d1'' ''d0'')"
    by code_simp
  have e: "os_ReadFile (fs (snd (main (update_server ''CORRUPT'' ''y'') no_options
          (installed_world ''1.4.0'')))) ''/home/u/Downloads/windsurf-1.5.0.tar.gz''
        = Inr ''CORRUPT''"
    by code_simp
  show ?thesis using a b c d e by blast
qed

text \<open>
  Claim C2, amended. A completed download is placed at its final path by the
  downloader, before its digest is checked. The orchestrator then computes the
  digest of the file at the archive path: when it cannot be computed or
  differs from the expected digest of the release descriptor, the run ends
  with an error and the state is unchanged; only when it is equal does the run
  go on to the replacement of the installation directory. Every run that
  reaches an outcome past the verification has found the expected digest on
  the file at the archive path, whether it was downloaded in this run or found
  there.
\<close>

theorem archive_verified_before_install:
  "(downloadFile e url filepath w = (None, w1) \<longrightarrow>
      (\<exists>c m. fs_lookup (fs w1) (filepath_Clean filepath) = Some (File c m)))
   \<and> (calculateSHA256 e (fs w) (archive_path fl release) = Inl err \<longrightarrow>
        verify_stage e fl release w = (Exit1 (HashFailed err), w))
   \<and> (calculateSHA256 e (fs w) (archive_path fl release) = Inr h \<and> h \<noteq> SHA256Hash release \<longrightarrow>
        verify_stage e fl release w = (Exit1 (HashMismatch (SHA256Hash release) h), w))
   \<and> (calculateSHA256 e (fs w) (archive_path fl release) = Inr (SHA256Hash release) \<longrightarrow>
        verify_stage e fl release w = replace_stage e fl release w)
   \<and> (past_verification (fst (download_stage e fl release w)) \<longrightarrow>
        (\<exists>w0. (w0 = w \<or> downloadFile e (URL release) (archive_path fl release) w = (None, w0))
           \<and> calculateSHA256 e (fs w0) (archive_path fl release) = Inr (SHA256Hash release)
           \<and> download_stage e fl release w = replace_stage e fl release w0))"
proof -
  have a: "\<exists>c m. fs_lookup (fs w1) (filepath_Clean filepath) = Some (File c m)"
    if "downloadFile e url filepath w = (None, w1)"
    using downloadFile_success_file [OF that] by simp
  have v: "past_verification (fst (verify_stage e fl release w0)) \<Longrightarrow>
           calculateSHA256 e (fs w0) (archive_path fl release) = Inr (SHA256Hash release)
           \<and> verify_stage e fl release w0 = replace_stage e fl release w0" for w0
    by (auto simp: verify_stage_def past_verification_def split: sum.splits if_splits)
  have d: "\<exists>w0. (w0 = w \<or> downloadFile e (URL release) (archive_path fl release) w = (None, w0))
           \<and> calculateSHA256 e (fs w0) (archive_path fl release) = Inr (SHA256Hash release)
           \<and> download_stage e fl release w = replace_stage e fl release w0"
    if pv: "past_verification (fst (download_stage e fl release w))"
  proof (cases "os_Stat (fs w) (archive_path fl release) = Inl ENOENT")
    case False
    then have "download_stage e fl release w = verify_stage e fl release w"
      by (simp add: download_stage_def)
    then show ?thesis using v [of w] pv by auto
  next
    case True
    obtain r w0 where dl: "downloadFile e (URL release) (archive_path fl release) w = (r, w0)"
      by (cases "downloadFile e (URL release) (archive_path fl release) w") auto
    show ?thesis
    proof (cases r)
      case None
      then have "download_stage e fl release w = verify_stage e fl release w0"
        using True dl by (simp add: download_stage_def)
      then show ?thesis using v [of w0] pv dl None by auto
    next
      case (Some er)
      then have "download_stage e fl release w = (Exit1 (DownloadFailed er), w0)"
        using True dl by (simp add: download_stage_def)
      then show ?thesis using pv by (simp add: past_verification_def)
    qed
  qed
  show ?thesis using a d by (auto simp: verify_stage_def)
qed

theorem archive_verified_before_install_witness:
  "downloadFile (update_server ''TARBALL'' ''n'') (URL release_150)
      (archive_path home_flags release_150) (installed_world ''1.4.0'')
     = (None, downloaded_world\<lparr>sent := [plain_request (URL release_150)]\<rparr>)
   \<and> (\<exists>c m. fs_lookup (fs (downloaded_world\<lparr>sent := [plain_request (URL release_150)]\<rparr>))
                 (filepath_Clean (archive_path home_flags release_150)) = Some (File c m))
   \<and> calculateSHA256 (update_server ''TARBALL'' ''n'') (fs (installed_world ''1.4.0''))
        (archive_path home_flags release_150) = Inl ENOENT
   \<and> verify_stage (update_server ''TARBALL'' ''n'') home_flags release_150 (installed_world ''1.4.0'')
        = (Exit1 (HashFailed ENOENT), installed_world ''1.4.0'')
   \<and> calculateSHA256 (update_server ''TARBALL'' ''n'') (fs downloaded_world)
        (archive_path home_flags (release_150\<lparr>SHA256Hash := ''d2''\<rparr>)) = Inr ''d1''
   \<and> ''d1'' \<noteq> SHA256Hash (release_150\<lparr>SHA256Hash := ''d2''\<rparr>)
   \<and> verify_stage (update_server ''TARBALL'' ''n'') home_flags
        (release_150\<lparr>SHA256Hash := ''d2''\<rparr>) downloaded_world
        = (Exit1 (HashMismatch ''d2'' ''d1''), downloaded_world)
   \<and> calculateSHA256 (update_server ''TARBALL'' ''n'') (fs downloaded_world)
        (archive_path home_flags release_150) = Inr (SHA256Hash release_150)
   \<and> verify_stage (update_server ''TARBALL'' ''n'') home_flags release_150 downloaded_world
        = replace_stage (update_server ''TARBALL'' ''n'') home_flags release_150 downloaded_world
   \<and> past_verification (fst (download_stage (update_server ''TARBALL'' ''n'') home_flags
        release_150 downloaded_world))
   \<and> (\<exists>w0. (w0 = downloaded_world
             \<or> downloadFile (update_server ''TARBALL'' ''n'') (URL release_150)
                  (archive_path home_flags release_150) downloaded_world = (None, w0))
          \<and> calculateSHA256 (update_server ''TARBALL'' ''n'') (fs w0)
               (archive_path home_flags release_150) = Inr (SHA256Hash release_150)
          \<and> download_stage (update_server ''TARBALL'' ''n'') home_flags release_150 downloaded_world
               = replace_stage (update_server ''TARBALL'' ''n'') home_flags release_150 w0)"
proof -
  have h1: "downloadFile (update_server ''TARBALL'' ''n'') (URL release_150)
      (archive_path home_flags release_150) (installed_world ''1.4.0'')
     = (None, downloaded_world\<lparr>sent := [plain_request (URL release_150)]\<rparr>)"
    by code_simp
  have h2: "calculateSHA256 (update_server ''TARBALL'' ''n'') (fs (installed_world ''1.4.0''))
        (archive_path home_flags release_150) = Inl ENOENT"
    by code_simp
  have h3: "calculateSHA256 (update_server ''TARBALL'' ''n'') (fs downloaded_world)
        (archive_path home_flags (release_150\<lparr>SHA256Hash := ''d2''\<rparr>)) = Inr ''d1''"
    by code_simp
  have h3': "''d1'' \<noteq> SHA256Hash (release_150\<lparr>SHA256Hash := ''d2''\<rparr>)" by simp
  have h4: "calculateSHA256 (update_server ''TARBALL'' ''n'') (fs downloaded_world)
        (archive_path home_flags release_150) = Inr (SHA256Hash release_150)"
    by code_simp
  have h5: "past_verification (fst (download_stage (update_server ''TARBALL'' ''n'') home_flags
        release_150 downloaded_world))"
    by code_simp
  note t1 = archive_verified_before_install
      [where e = "update_server ''TARBALL'' ''n''" and url = "URL release_150"
         and filepath = "archive_path home_flags release_150" and w = "installed_world ''1.4.0''"
         and ?w1.0 = "downloaded_world\<lparr>sent := [plain_request (URL release_150)]\<rparr>"
         and fl = home_flags and release = release_150 and err = ENOENT]
  note t2 = archive_verified_before_install
      [where e = "update_server ''TARBALL'' ''n''" and w = downloaded_world
         and fl = home_flags and release = "release_150\<lparr>SHA256Hash := ''d2''\<rparr>"
         and h = "''d1''"]
  note t3 = archive_verified_before_install
      [where e = "update_server ''TARBALL'' ''n''" and w = downloaded_world
         and fl = home_flags and release = release_150]
  have c1: "\<exists>c m. fs_lookup (fs (downloaded_world\<lparr>sent := [plain_request (URL release_150)]\<rparr>))
                 (filepath_Clean (archive_path home_flags release_150)) = Some (File c m)"
    using t1 h1 by blast
  have c2: "verify_stage (update_server ''TARBALL'' ''n'') home_flags release_150
              (installed_world ''1.4.0'') = (Exit1 (HashFailed ENOENT), installed_world ''1.4.0'')"
    using t1 h2 by blast
  have c3: "verify_stage (update_server ''TARBALL'' ''n'') home_flags
        (release_150\<lparr>SHA256Hash := ''d2''\<rparr>) downloaded_world
        = (Exit1 (HashMismatch ''d2'' ''d1''), downloaded_world)"
    using t2 h3 h3' by simp
  have c4: "verify_stage (update_server ''TARBALL'' ''n'') home_flags release_150 downloaded_world
        = replace_stage (update_server ''TARBALL'' ''n'') home_flags release_150 downloaded_world"
    using t3 h4 by blast
  have c5: "\<exists>w0. (w0 = downloaded_world
             \<or> downloadFile (update_server ''TARBALL'' ''n'') (URL release_150)
                  (archive_path home_flags release_150) downloaded_world = (None, w0))
          \<and> calculateSHA256 (update_server ''TARBALL'' ''n'') (fs w0)
               (archive_path home_flags release_150) = Inr (SHA256Hash release_150)
          \<and> download_stage (update_server ''TARBALL'' ''n'') home_flags release_150 downloaded_world
               = replace_stage (update_server ''TARBALL'' ''n'') home_flags release_150 w0"
    using t3 h5 by blast
  show ?thesis using h1 h2 h3 h3' h4 h5 c1 c2 c3 c4 c5 by blast
qed

end
